theory Spec2Isabelle
  imports Complex_Main
begin

section \<open>Python strings\<close>

text \<open>
  A feedback text is a \<^typ>\<open>string\<close>, each \<^typ>\<open>char\<close> standing for the code point of the
  same number (0 to 255).  The analyzer only ever looks at a text through
  \<^verbatim>\<open>text.lower()\<close>, the substring test \<^verbatim>\<open>w in s\<close>, \<^verbatim>\<open>re.search\<close>,
  \<^verbatim>\<open>text.count('!')\<close>, \<^verbatim>\<open>c.isupper()\<close> and \<^verbatim>\<open>len(text)\<close>.
  On these code points \<^verbatim>\<open>str.isupper\<close> holds for \<open>A\<close>..\<open>Z\<close> and for U+00C0..U+00DE
  but U+00D7, and \<^verbatim>\<open>str.lower\<close> moves each of them 32 places up and leaves every
  other character alone.
\<close>

definition upper_chars :: string where
  "upper_chars = ''ABCDEFGHIJKLMNOPQRSTUVWXYZ'' @
    [CHR 0xC0, CHR 0xC1, CHR 0xC2, CHR 0xC3, CHR 0xC4, CHR 0xC5, CHR 0xC6, CHR 0xC7,
     CHR 0xC8, CHR 0xC9, CHR 0xCA, CHR 0xCB, CHR 0xCC, CHR 0xCD, CHR 0xCE, CHR 0xCF,
     CHR 0xD0, CHR 0xD1, CHR 0xD2, CHR 0xD3, CHR 0xD4, CHR 0xD5, CHR 0xD6, CHR 0xD8,
     CHR 0xD9, CHR 0xDA, CHR 0xDB, CHR 0xDC, CHR 0xDD, CHR 0xDE]"

definition lower_chars :: string where
  "lower_chars = ''abcdefghijklmnopqrstuvwxyz'' @
    [CHR 0xE0, CHR 0xE1, CHR 0xE2, CHR 0xE3, CHR 0xE4, CHR 0xE5, CHR 0xE6, CHR 0xE7,
     CHR 0xE8, CHR 0xE9, CHR 0xEA, CHR 0xEB, CHR 0xEC, CHR 0xED, CHR 0xEE, CHR 0xEF,
     CHR 0xF0, CHR 0xF1, CHR 0xF2, CHR 0xF3, CHR 0xF4, CHR 0xF5, CHR 0xF6, CHR 0xF8,
     CHR 0xF9, CHR 0xFA, CHR 0xFB, CHR 0xFC, CHR 0xFD, CHR 0xFE]"

definition lower_char :: "char \<Rightarrow> char" where
  "lower_char c = (case map_of (zip upper_chars lower_chars) c of Some d \<Rightarrow> d | None \<Rightarrow> c)"

definition lower :: "string \<Rightarrow> string" where
  "lower s = map lower_char s"

definition isupper :: "char \<Rightarrow> bool" where
  "isupper c = (c \<in> set upper_chars)"

primrec starts_with :: "string \<Rightarrow> string \<Rightarrow> bool" where
  "starts_with [] s = True"
| "starts_with (c # w) s = (case s of [] \<Rightarrow> False | d # t \<Rightarrow> c = d \<and> starts_with w t)"

text \<open>\<^verbatim>\<open>w in s\<close>: \<open>w\<close> occurs in \<open>s\<close> as a contiguous substring.\<close>

primrec contains :: "string \<Rightarrow> string \<Rightarrow> bool" where
  "contains w [] = (w = [])"
| "contains w (c # s) = (starts_with w (c # s) \<or> contains w s)"

text \<open>\<^verbatim>\<open>sum(1 for word in words if word.lower() in text.lower())\<close>\<close>

definition count_hits :: "string list \<Rightarrow> string \<Rightarrow> nat" where
  "count_hits ws text = length (filter (\<lambda>w. contains (lower w) (lower text)) ws)"

text \<open>\<^verbatim>\<open>any(phrase in text.lower() for phrase in phrases)\<close>\<close>

definition any_phrase :: "string list \<Rightarrow> string \<Rightarrow> bool" where
  "any_phrase ps text = list_ex (\<lambda>p. contains p (lower text)) ps"

section \<open>Urgency\<close>

text \<open>
  \<^verbatim>\<open>self.urgency_phrases\<close>: a dict literal, iterated in insertion order.
\<close>

definition urgency_phrases :: "(string \<times> string list) list" where
  "urgency_phrases =
    [(''immediate'', [''immediately'', ''urgent'', ''asap'', ''right now'', ''can't wait'',
                      ''emergency'', ''critical'', ''desperate'']),
     (''critical'', [''very urgent'', ''need help now'', ''can't continue'', ''blocking me'',
                     ''impossible'', ''giving up'']),
     (''high'', [''soon'', ''quickly'', ''need help'', ''struggling'', ''important'',
                 ''priority'', ''stuck'']),
     (''medium'', [''when possible'', ''would like'', ''appreciate'', ''should be addressed'',
                   ''needs attention'']),
     (''low'', [''eventually'', ''minor'', ''small issue'', ''not urgent'', ''whenever'',
                ''no rush''])]"

text \<open>
  \<^verbatim>\<open>for level, phrases in self.urgency_phrases.items():
      if any(phrase in text.lower() for phrase in phrases): return level
  return "low"\<close>
\<close>

primrec first_level :: "(string \<times> string list) list \<Rightarrow> string \<Rightarrow> string" where
  "first_level [] text = ''low''"
| "first_level (lp # rest) text =
     (if any_phrase (snd lp) text then fst lp else first_level rest text)"

definition detect_urgency :: "string \<Rightarrow> string" where
  "detect_urgency text = first_level urgency_phrases text"

section \<open>Regular expressions\<close>

text \<open>
  The patterns of the analyzer use literals, grouping, alternation, \<^verbatim>\<open>?\<close> and
  \<^verbatim>\<open>.*\<close> only.  \<open>rmatch r s\<close> lists what is left of \<open>s\<close> after each way \<open>r\<close> can match
  a prefix of it, so \<open>r\<close> matches at the start of \<open>s\<close> iff the list is not empty;
  \<^verbatim>\<open>re.search\<close> (and a non-empty \<^verbatim>\<open>re.findall\<close>) tries every start position.
  The dot of \<^verbatim>\<open>.*\<close> matches every character but the newline.
\<close>

datatype regex = Lit string | Seq regex regex | Alt regex regex | Opt regex | AnyStar

primrec rmatch :: "regex \<Rightarrow> string \<Rightarrow> string list" where
  "rmatch (Lit w) s = (if starts_with w s then [drop (length w) s] else [])"
| "rmatch (Seq a b) s = concat (map (rmatch b) (rmatch a s))"
| "rmatch (Alt a b) s = rmatch a s @ rmatch b s"
| "rmatch (Opt a) s = rmatch a s @ [s]"
| "rmatch AnyStar s =
     map (\<lambda>n. drop n s) [0..<Suc (length (takeWhile (\<lambda>c. c \<noteq> CHR 0x0A) s))]"

primrec re_search :: "regex \<Rightarrow> string \<Rightarrow> bool" where
  "re_search r [] = (rmatch r [] \<noteq> [])"
| "re_search r (c # s) = (rmatch r (c # s) \<noteq> [] \<or> re_search r s)"

text \<open>\<open>alts [a, b, c]\<close> is \<^verbatim>\<open>(a|b|c)\<close>; \<open>seqs [r, s, t]\<close> is \<^verbatim>\<open>rst\<close>.\<close>

fun alts :: "string list \<Rightarrow> regex" where
  "alts [] = Lit []"
| "alts [w] = Lit w"
| "alts (w # ws) = Alt (Lit w) (alts ws)"

fun seqs :: "regex list \<Rightarrow> regex" where
  "seqs [] = Lit []"
| "seqs [r] = r"
| "seqs (r # rs) = Seq r (seqs rs)"

text \<open>\<^verbatim>\<open>any(re.search(pattern, text.lower()) for pattern in patterns)\<close>\<close>

definition any_search :: "regex list \<Rightarrow> string \<Rightarrow> bool" where
  "any_search rs text = list_ex (\<lambda>r. re_search r (lower text)) rs"

section \<open>Errors\<close>

text \<open>
  The exceptions the analyzer's own operations can raise: \<^verbatim>\<open>/\<close> with a zero divisor,
  \<^verbatim>\<open>/\<close> between two integers whose quotient is too large for a float, and
  \<^verbatim>\<open>max\<close> of an empty collection.
\<close>

datatype error = ZeroDivisionError | ValueError | OverflowError

text \<open>\<^verbatim>\<open>x / y\<close> with a float operand.\<close>

definition truediv :: "real \<Rightarrow> real \<Rightarrow> error + real" where
  "truediv x y = (if y = 0 then Inl ZeroDivisionError else Inr (x / y))"

text \<open>
  \<^verbatim>\<open>a / b\<close> with two integers: the quotient is rounded to the nearest float, and
  \<^verbatim>\<open>OverflowError\<close> is raised when that is beyond the largest one, that is from
  \<open>2^1024 - 2^970\<close> on.
\<close>

definition float_overflow :: "real \<Rightarrow> bool" where
  "float_overflow q = (2 ^ 1024 - 2 ^ 970 \<le> \<bar>q\<bar>)"

definition int_truediv :: "int \<Rightarrow> int \<Rightarrow> error + real" where
  "int_truediv a b =
    (if b = 0 then Inl ZeroDivisionError
     else if float_overflow (real_of_int a / real_of_int b) then Inl OverflowError
     else Inr (real_of_int a / real_of_int b))"

section \<open>Primary levels\<close>

definition frustration_words :: "(string \<times> string list) list" where
  "frustration_words =
    [(''technical'', [''website'', ''platform'', ''error'', ''bug'', ''login'', ''system'',
                      ''lms'', ''interface'', ''broken'', ''glitch'']),
     (''content'', [''material'', ''content'', ''lecture'', ''understand'', ''concept'',
                    ''difficult'', ''confusing'', ''unclear'']),
     (''support'', [''help'', ''support'', ''response'', ''answer'', ''question'', ''ignored'',
                    ''waiting'', ''unresponsive'']),
     (''pace'', [''fast'', ''slow'', ''pace'', ''speed'', ''keep up'', ''behind'', ''rushed'',
                 ''dragging''])]"

definition general_frustration :: "string list" where
  "general_frustration =
    [''frustrating'', ''difficult'', ''confused'', ''struggle'', ''hard'', ''annoying'',
     ''terrible'', ''awful'', ''horrible'', ''useless'', ''waste'', ''disappointed'']"

definition strong_indicators :: "string list" where
  "strong_indicators = [''extremely'', ''very'', ''incredibly'', ''terribly'', ''absolutely'']"

definition intensity_prefix :: regex where
  "intensity_prefix = Opt (alts [''very '', ''really '', ''extremely ''])"

definition explicit_patterns :: "regex list" where
  "explicit_patterns =
    [seqs [Alt (Seq (Lit ''I'') (alts [[CHR 0x27, CHR ''m''], '' am''])) (Lit ''feeling''),
           Lit '' '', intensity_prefix, alts [''frustrated'', ''annoyed'', ''upset'']],
     seqs [Lit ''this is '', intensity_prefix,
           alts [''frustrating'', ''annoying'', ''infuriating'']],
     seqs [alts [''can't'', ''cannot''], Lit '' '', alts [''stand'', ''handle'', ''deal with''],
           Lit '' '', alts [''this'', ''it''], Lit '' '', Opt (Lit ''anymore'')]]"

definition detect_frustration_level :: "string \<Rightarrow> real" where
  "detect_frustration_level text =
    (let all_frustration_words = concat (map snd frustration_words) @ general_frustration;
         base_count = count_hits all_frustration_words text;
         intensity_multiplier = 1.0 + 0.5 * real (count_hits strong_indicators text);
         frustration_score = min (real base_count * 0.15 * intensity_multiplier) 1.0
     in if any_search explicit_patterns text then max frustration_score 0.7
        else frustration_score)"

text \<open>
  \<^verbatim>\<open>_detect_engagement_level\<close> and \<^verbatim>\<open>_detect_confidence_level\<close> share their shape:
  a weighted mean \<^verbatim>\<open>(high*0.9 + medium*0.5 + low*0.1) / total\<close> when an indicator is
  present, 0.5 otherwise, then a floor of 0.8 and a cap of 0.2 from two explicit phrases.
\<close>

definition weighted_level ::
  "string list \<Rightarrow> string list \<Rightarrow> string list \<Rightarrow> regex \<Rightarrow> regex \<Rightarrow> string \<Rightarrow> error + real" where
  "weighted_level high medium low up down text =
    (let high_count = count_hits high text;
         medium_count = count_hits medium text;
         low_count = count_hits low text;
         total_indicators = high_count + medium_count + low_count
     in case (if total_indicators > 0
              then truediv (real high_count * 0.9 + real medium_count * 0.5
                            + real low_count * 0.1) (real total_indicators)
              else Inr 0.5) of
          Inl e \<Rightarrow> Inl e
        | Inr score \<Rightarrow>
            (let score1 = (if re_search up (lower text) then max score 0.8 else score);
                 score2 = (if re_search down (lower text) then min score1 0.2 else score1)
             in Inr score2))"

definition detect_engagement_level :: "string \<Rightarrow> error + real" where
  "detect_engagement_level text =
    weighted_level
      [''excited'', ''interested'', ''engaged'', ''fascinating'', ''love'', ''enjoy'',
       ''captivating'']
      [''good'', ''okay'', ''fine'', ''decent'', ''reasonable'', ''satisfactory'']
      [''boring'', ''dull'', ''uninteresting'', ''tedious'', ''monotonous'', ''disengaged'']
      (seqs [Lit ''I '', Opt (alts [''really '', ''absolutely '']),
             alts [''love'', ''enjoy'', ''like'']])
      (seqs [Lit ''I '', Opt (alts [''really '', ''absolutely '']),
             alts [''hate'', ''dislike'', ''can't stand'']])
      text"

definition detect_confidence_level :: "string \<Rightarrow> error + real" where
  "detect_confidence_level text =
    weighted_level
      [''confident'', ''sure'', ''certain'', ''understand'', ''grasp'', ''mastered'', ''clear'']
      [''somewhat understand'', ''getting it'', ''making progress'', ''improving'']
      [''confused'', ''lost'', ''uncertain'', ''unclear'', ''don't understand'', ''struggling'']
      (seqs [Lit ''I'', alts [[CHR 0x27, CHR ''m''], '' am''], Lit '' '', intensity_prefix,
             alts [''confident'', ''sure'', ''certain'']])
      (seqs [Lit ''I'', alts [[CHR 0x27, CHR ''m''], '' am''], Lit '' '', intensity_prefix,
             alts [''confused'', ''lost'', ''unsure'']])
      text"

text \<open>
  \<^verbatim>\<open>aspect_scores\<close> is an optional dict of integer scores, here the list of its items;
  \<^verbatim>\<open>if aspect_scores:\<close> holds for a dict that is given and not empty.
\<close>

definition calculate_satisfaction_level ::
  "string \<Rightarrow> (string \<times> int) list option \<Rightarrow> error + real" where
  "calculate_satisfaction_level text aspect_scores =
    (let pos_count = count_hits [''satisfied'', ''happy'', ''pleased'', ''great'', ''excellent'',
                                 ''good'', ''helpful''] text;
         neg_count = count_hits [''unsatisfied'', ''unhappy'', ''disappointed'', ''poor'',
                                 ''terrible'', ''bad'', ''unhelpful''] text;
         total_indicators = pos_count + neg_count
     in case (if total_indicators > 0 then int_truediv (int pos_count) (int total_indicators)
              else Inr 0.5) of
          Inl e \<Rightarrow> Inl e
        | Inr text_satisfaction \<Rightarrow>
            (case aspect_scores of
               Some (item # items) \<Rightarrow>
                 (case int_truediv (sum_list (map snd (item # items)))
                                   (int (length (item # items))) of
                    Inl e \<Rightarrow> Inl e
                  | Inr avg_aspect_score \<Rightarrow>
                      (let aspect_satisfaction = (avg_aspect_score - 1) / 4
                       in Inr (text_satisfaction * 0.6 + aspect_satisfaction * 0.4)))
             | _ \<Rightarrow> Inr text_satisfaction))"

section \<open>Frustration classification\<close>

text \<open>
  \<^verbatim>\<open>max(matches, key=matches.get)\<close>: the first key, in the dict's order, whose count
  is the largest; \<^verbatim>\<open>max\<close> of an empty dict raises \<^verbatim>\<open>ValueError\<close>.
\<close>

primrec first_max :: "(string \<times> nat) \<Rightarrow> (string \<times> nat) list \<Rightarrow> (string \<times> nat)" where
  "first_max best [] = best"
| "first_max best (x # xs) = first_max (if snd best < snd x then x else best) xs"

definition max_key :: "(string \<times> nat) list \<Rightarrow> error + (string \<times> nat)" where
  "max_key m = (case m of [] \<Rightarrow> Inl ValueError | x # xs \<Rightarrow> Inr (first_max x xs))"

definition determine_frustration_type :: "string \<Rightarrow> error + string" where
  "determine_frustration_type text =
    (let matches = map (\<lambda>(ftype, keywords). (ftype, count_hits keywords text))
                       frustration_words;
         total = sum_list (map snd matches)
     in if total = 0 then Inr ''mixed''
        else case max_key matches of
               Inl e \<Rightarrow> Inl e
             | Inr (max_type, max_count) \<Rightarrow>
                 if max_count > 0 \<and> real total > real max_count * 1.5 then Inr ''mixed''
                 else Inr (if max_count > 0 then max_type else ''mixed''))"

definition determine_frustration_intensity :: "real \<Rightarrow> string" where
  "determine_frustration_intensity frustration_level =
    (if frustration_level < 0.3 then ''mild''
     else if frustration_level < 0.6 then ''moderate''
     else if frustration_level < 0.85 then ''severe''
     else ''critical'')"

text \<open>
  An entry of \<^verbatim>\<open>historical_data\<close> is a dict read with \<^verbatim>\<open>.get(key, default)\<close>; a
  key that is absent is \<open>None\<close> here.
\<close>

record hist_entry =
  h_timestamp :: "real option"
  h_frustration_level :: "real option"
  h_satisfaction_level :: "real option"
  h_emotional_temperature :: "real option"

definition get_or :: "'a option \<Rightarrow> 'a \<Rightarrow> 'a" where
  "get_or v d = (case v of None \<Rightarrow> d | Some x \<Rightarrow> x)"

text \<open>
  \<^verbatim>\<open>sorted(historical_data, key=lambda x: x.get('timestamp', 0), reverse=True)[:n]\<close>;
  the sort is stable, and with \<^verbatim>\<open>reverse=True\<close> entries of equal key keep their order.
\<close>

definition recent_entries :: "nat \<Rightarrow> hist_entry list \<Rightarrow> hist_entry list" where
  "recent_entries n historical_data =
     take n (rev (sort_key (\<lambda>x. get_or (h_timestamp x) 0) (rev historical_data)))"

text \<open>
  The shared shape of \<^verbatim>\<open>_determine_frustration_trend\<close> and
  \<^verbatim>\<open>_determine_emotional_trajectory\<close>: the latest value against the mean of the
  earlier ones.
\<close>

definition classify_change :: "string \<Rightarrow> string \<Rightarrow> string \<Rightarrow> string \<Rightarrow> real list \<Rightarrow> error + string" where
  "classify_change up down jump flat vals =
    (case vals of
       latest # p # ps \<Rightarrow>
         (case truediv (sum_list (p # ps)) (real (length (p # ps))) of
            Inl e \<Rightarrow> Inl e
          | Inr previous \<Rightarrow>
              (let diff = latest - previous
               in if diff > 0.15 then Inr up
                  else if diff < - 0.15 then Inr down
                  else if list_ex (\<lambda>v. \<bar>latest - v\<bar> > 0.25) (p # ps) then Inr jump
                  else Inr flat))
     | _ \<Rightarrow> Inr flat)"

definition determine_frustration_trend :: "hist_entry list option \<Rightarrow> error + string" where
  "determine_frustration_trend historical_data =
    (case historical_data of
       None \<Rightarrow> Inr ''stable''
     | Some hist \<Rightarrow>
         if length hist < 2 then Inr ''stable''
         else classify_change ''increasing'' ''decreasing'' ''spiking'' ''stable''
                (map (\<lambda>entry. get_or (h_frustration_level entry) 0.5) (recent_entries 3 hist)))"

definition determine_emotional_trajectory :: "hist_entry list option \<Rightarrow> error + string" where
  "determine_emotional_trajectory historical_data =
    (case historical_data of
       None \<Rightarrow> Inr ''neutral''
     | Some hist \<Rightarrow>
         if length hist < 2 then Inr ''neutral''
         else classify_change ''improving'' ''declining'' ''fluctuating'' ''neutral''
                (map (\<lambda>entry. get_or (h_satisfaction_level entry) 0.5
                               - get_or (h_frustration_level entry) 0.5)
                     (recent_entries 3 hist)))"

section \<open>Urgency signals and response urgency\<close>

definition urgency_signal_patterns :: "(regex \<times> string) list" where
  "urgency_signal_patterns =
    [(seqs [alts [''thinking'', ''considering''], Lit '' '', Opt (Lit ''of ''),
            alts [''dropping'', ''quitting'', ''leaving'']], ''considering_dropping''),
     (seqs [alts [''missed'', ''missing'', ''late'', ''behind on''], Lit '' '',
            alts [''deadline'', ''assignment'', ''submission'', ''work'']], ''missed_deadlines''),
     (seqs [alts [''need'', ''asking for'', ''requesting''], Lit '' help''], ''help_requests''),
     (seqs [alts [''can't'', ''cannot'', ''unable to''], Lit '' '',
            alts [''continue'', ''proceed'', ''move forward'', ''progress'']],
      ''progress_blocked''),
     (seqs [alts [''deadline'', ''due date''], Lit '' '',
            alts [''approaching'', ''coming up'', ''soon'']], ''timeline_pressure''),
     (seqs [alts [''tried'', ''attempted''], Lit '' '',
            alts [''multiple times'', ''several times'', ''many times'']],
      ''repeated_attempts'')]"

text \<open>One \<^verbatim>\<open>if re.search(pattern, text.lower()): signals.append(tag)\<close> per entry.\<close>

definition tags_of :: "(regex \<times> string) list \<Rightarrow> string \<Rightarrow> string list" where
  "tags_of ps text = map snd (filter (\<lambda>(r, tag). re_search r (lower text)) ps)"

definition detect_urgency_signals :: "string \<Rightarrow> string list" where
  "detect_urgency_signals text = tags_of urgency_signal_patterns text"

definition urgency_mapping :: "string \<Rightarrow> string option" where
  "urgency_mapping = map_of
    [(''immediate'', ''within_hour''), (''critical'', ''within_hour''), (''high'', ''same_day''),
     (''medium'', ''within_week''), (''low'', ''routine'')]"

definition determine_response_urgency :: "string \<Rightarrow> real \<Rightarrow> string" where
  "determine_response_urgency urgency_level frustration_level =
    (let response_urgency = get_or (urgency_mapping urgency_level) ''routine''
     in if frustration_level > 0.8 \<and> response_urgency \<noteq> ''within_hour''
        then (if response_urgency = ''same_day'' then ''within_hour''
              else if response_urgency = ''within_week'' then ''same_day''
              else if response_urgency = ''routine'' then ''within_week''
              else response_urgency)
        else response_urgency)"

section \<open>Emotional temperature and volatility\<close>

definition hot_words :: "string list" where
  "hot_words = [''angry'', ''furious'', ''excited'', ''thrilled'', ''frustrated'', ''enraged'',
                ''anxious'', ''stressed'', ''panicked'', ''desperate'', ''urgent'',
                ''passionate'']"

definition cold_words :: "string list" where
  "cold_words = [''calm'', ''detached'', ''indifferent'', ''bored'', ''tired'', ''exhausted'',
                 ''apathetic'', ''disinterested'', ''resigned'', ''defeated'', ''numb'']"

definition intensifiers :: "string list" where
  "intensifiers = [''very'', ''extremely'', ''incredibly'', ''absolutely'', ''completely'',
                   ''totally'']"

definition calculate_emotional_temperature :: "string \<Rightarrow> error + real" where
  "calculate_emotional_temperature text =
    (let hot_count = count_hits hot_words text;
         cold_count = count_hits cold_words text;
         intensifier_count = count_hits intensifiers text;
         total_emotion_words = hot_count + cold_count
     in case (if total_emotion_words = 0 then Inr 0.5
              else int_truediv (int hot_count) (int total_emotion_words)) of
          Inl e \<Rightarrow> Inl e
        | Inr base_temp \<Rightarrow>
            (let intensity_factor = 1.0 + 0.1 * real intensifier_count;
                 temperature = min (max (base_temp * intensity_factor) 0.0) 1.0;
                 exclamation_count = count_list text (CHR ''!'')
             in case int_truediv (int (length (filter isupper text)))
                                 (int (max (length text) 1)) of
                  Inl e \<Rightarrow> Inl e
                | Inr caps_ratio \<Rightarrow>
                    Inr (min (temperature + min (real exclamation_count * 0.05) 0.25
                              + min (caps_ratio * 0.5) 0.25) 1.0)))"

definition calculate_emotional_volatility :: "hist_entry list option \<Rightarrow> error + real" where
  "calculate_emotional_volatility historical_data =
    (case historical_data of
       None \<Rightarrow> Inr 0.3
     | Some hist \<Rightarrow>
         if length hist < 2 then Inr 0.3
         else
           (let recent = recent_entries 5 hist;
                changes = concat (map (\<lambda>(current, previous).
                  [\<bar>get_or (h_frustration_level current) 0.5
                     - get_or (h_frustration_level previous) 0.5\<bar>,
                   \<bar>get_or (h_satisfaction_level current) 0.5
                     - get_or (h_satisfaction_level previous) 0.5\<bar>,
                   \<bar>get_or (h_emotional_temperature current) 0.5
                     - get_or (h_emotional_temperature previous) 0.5\<bar>])
                  (zip recent (tl recent)))
            in if changes \<noteq> []
               then (case truediv (sum_list changes) (real (length changes)) of
                       Inl e \<Rightarrow> Inl e
                     | Inr volatility \<Rightarrow> Inr (min (volatility * 2.5) 1.0))
               else Inr 0.3))"

section \<open>Hidden dissatisfaction\<close>

text \<open>
  Each pattern of \<^verbatim>\<open>self.hidden_dissatisfaction_patterns\<close> with the name the code
  derives from it (the text before the first \<^verbatim>\<open>|\<close>, parentheses removed).
\<close>

definition hidden_dissatisfaction_patterns :: "(regex \<times> string) list" where
  "hidden_dissatisfaction_patterns =
    [(seqs [alts [''it's'', ''its''], Lit '' '', alts [''fine'', ''okay'', ''alright''],
            Opt (alts ['' I guess'', '' I suppose''])], ''it's''),
     (seqs [Lit ''not '', alts [''too'', ''that''], Lit '' bad''], ''not too''),
     (seqs [Lit ''could be '', alts [''better'', ''worse'']], ''could be better''),
     (seqs [Lit ''I '', alts [''suppose'', ''guess''], Lit '' it'',
            alts [[CHR 0x27, CHR ''s''], '' is''], Lit '' '',
            alts [''okay'', ''fine'', ''alright'']], ''I suppose''),
     (seqs [alts [''works'', ''functions''], Lit '' '', alts [''well enough'', ''adequately'']],
      ''works''),
     (seqs [alts [''somewhat'', ''kind of'', ''sort of''], Lit '' '',
            alts [''helpful'', ''useful'']], ''somewhat''),
     (seqs [alts [''better than'', ''not as bad as''], Lit '' '',
            alts [''expected'', ''anticipated'']], ''better than''),
     (seqs [alts [''can't complain'', ''no complaints''], Lit '' '',
            alts [''too much'', ''much'']], ''can't complain''),
     (seqs [alts [''doing'', ''trying''], Lit '' '', alts [''my'', ''their''], Lit '' best''],
      ''doing''),
     (seqs [alts [''probably'', ''maybe''], Lit '' just me''], ''probably'')]"

definition reservation_patterns :: "(regex \<times> string) list" where
  "reservation_patterns =
    [(seqs [alts [''good'', ''great'', ''nice''], Lit '' but''], ''praise_with_reservations''),
     (seqs [alts [''like'', ''enjoy''], AnyStar, alts [''however'', ''though'', ''but'']],
      ''praise_with_reservations''),
     (seqs [alts [''somewhat'', ''kind of'', ''sort of''], Lit '' '',
            alts [''good'', ''helpful'', ''useful'']], ''faint_praise''),
     (seqs [alts [''I appreciate'', ''thank you for''], Lit '' '',
            alts [''the effort'', ''trying'', ''attempting'']], ''diplomatic_language'')]"

definition analyze_hidden_dissatisfaction :: "string \<Rightarrow> real \<Rightarrow> bool \<times> real \<times> string list" where
  "analyze_hidden_dissatisfaction text satisfaction_level =
    (let hidden_signals = tags_of hidden_dissatisfaction_patterns text
                          @ tags_of reservation_patterns text;
         hidden_dissatisfaction = (length hidden_signals > 0);
         base_confidence = min (real (length hidden_signals) * 0.25) 0.75;
         confidence_adjustment =
           (if satisfaction_level > 0.7 \<and> hidden_dissatisfaction then - 0.3
            else if satisfaction_level < 0.4 \<and> hidden_dissatisfaction then 0.2
            else 0);
         hidden_confidence = max (min (base_confidence + confidence_adjustment) 1.0) 0.0
     in (hidden_dissatisfaction, hidden_confidence, hidden_signals))"

definition polite_phrases :: "string list" where
  "polite_phrases = [''thank you'', ''thanks for'', ''appreciate'', ''grateful'', ''please'',
                     ''if possible'', ''if you could'', ''would be nice'', ''understand that'',
                     ''I know that'', ''I realize'']"

definition calculate_politeness_mask :: "string \<Rightarrow> bool \<Rightarrow> real" where
  "calculate_politeness_mask text hidden_dissatisfaction =
    (if \<not> hidden_dissatisfaction then 0.0
     else
       (let polite_count = length (filter (\<lambda>phrase. contains phrase (lower text))
                                          polite_phrases);
            mask_level = min (real polite_count * 0.2) 0.8;
            mask_level1 =
              (if re_search (seqs [alts [''very'', ''really'', ''truly'', ''so''], Lit '' '',
                                    alts [''grateful'', ''thankful'', ''appreciative'']])
                            (lower text)
               then mask_level + 0.1 else mask_level);
            mask_level2 =
              (if re_search (seqs [alts [''sorry to'', ''apologize for''], Lit '' '',
                                    alts [''bother'', ''trouble'', ''disturb'']])
                            (lower text)
               then mask_level1 + 0.15 else mask_level1)
        in min mask_level2 1.0))"

section \<open>Emotional markers\<close>

text \<open>
  \<^verbatim>\<open>_detect_dropout_risk_emotions\<close> and \<^verbatim>\<open>_detect_positive_recovery_indicators\<close>:
  first every tag that occurs in the lowercased text, then, in the dict's order, every tag
  one of whose phrases occurs and that is not in the list yet.
\<close>

definition detect_tags :: "string list \<Rightarrow> (string \<times> string list) list \<Rightarrow> string \<Rightarrow> string list" where
  "detect_tags tags phrases text =
    fold (\<lambda>(tag, ps) detected.
            if any_phrase ps text \<and> tag \<notin> set detected then detected @ [tag] else detected)
         phrases
         (filter (\<lambda>tag. contains tag (lower text)) tags)"

definition detect_dropout_risk_emotions :: "string \<Rightarrow> string list" where
  "detect_dropout_risk_emotions text =
    detect_tags
      [''helplessness'', ''overwhelm'', ''isolation'', ''despair'', ''frustration'',
       ''anxiety'', ''hopelessness'', ''defeat'', ''inadequacy'', ''disconnection'']
      [(''helplessness'', [''can't do this'', ''beyond me'', ''impossible for me'',
                           ''no way I can'']),
       (''overwhelm'', [''too much'', ''overwhelming'', ''drowning in'', ''can't keep up'',
                        ''too difficult'']),
       (''isolation'', [''all alone'', ''no one helps'', ''no support'', ''by myself'',
                        ''no one responds'']),
       (''despair'', [''giving up'', ''no point'', ''useless to try'', ''hopeless'',
                      ''waste of time'']),
       (''anxiety'', [''anxious'', ''worried'', ''stressed'', ''panic'', ''fear'', ''dread''])]
      text"

definition detect_positive_recovery_indicators :: "string \<Rightarrow> string list" where
  "detect_positive_recovery_indicators text =
    detect_tags
      [''hope'', ''determination'', ''gratitude'', ''optimism'', ''relief'',
       ''confidence'', ''satisfaction'', ''enthusiasm'', ''motivation'', ''connection'']
      [(''hope'', [''hoping'', ''look forward to'', ''optimistic'', ''better next time'']),
       (''determination'', [''determined'', ''will try again'', ''not giving up'',
                            ''keep working'']),
       (''gratitude'', [''thankful'', ''appreciate'', ''grateful'', ''thanks for'']),
       (''confidence'', [''confident'', ''I can do this'', ''getting better at'',
                         ''improving'']),
       (''enthusiasm'', [''excited'', ''looking forward'', ''can't wait'', ''eager''])]
      text"

definition trigger_patterns :: "(string \<times> regex list) list" where
  "trigger_patterns =
    [(''deadline_pressure'', [Lit ''deadline'', Lit ''due date'', Lit ''running out of time'',
                              Lit ''not enough time'']),
     (''technical_issues'',
        [seqs [alts [''website'', ''system'', ''platform''], Lit '' '',
               alts [''doesn't work'', ''isn't working'', ''broken'']],
         seqs [Lit ''technical '', alts [''issue'', ''problem'', ''error'']]]),
     (''content_difficulty'',
        [seqs [alts [''too'', ''very''], Lit '' '', alts [''difficult'', ''hard'', ''complex'']],
         Lit ''don't understand'', Lit ''confused by'']),
     (''lack_of_support'',
        [seqs [Lit ''no '', alts [''help'', ''support'', ''response'']],
         seqs [Lit ''no one '', alts [''answers'', ''responds'']],
         seqs [Lit ''waiting for '', alts [''help'', ''response'']]]),
     (''peer_comparison'',
        [seqs [Lit ''everyone else '', alts [''gets it'', ''understands'']],
         Lit ''falling behind'', Lit ''only one struggling'']),
     (''feedback_issues'',
        [seqs [alts [''no'', ''unclear'', ''unhelpful''], Lit '' feedback''],
         seqs [Lit ''don't know '', alts [''how'', ''what''], Lit '' I'm doing wrong'']]),
     (''workload_issues'',
        [seqs [Lit ''too '', alts [''much'', ''many''], Lit '' '',
               alts [''assignments'', ''tasks'', ''work'']],
         seqs [Lit ''workload is '', alts [''overwhelming'', ''too much'']]]),
     (''instructor_issues'',
        [seqs [Lit ''instructor '', alts [''doesn't'', ''isn't''], Lit '' '',
               alts [''explain'', ''clear'', ''helpful'']],
         Lit ''teaching style''])]"

definition identify_emotional_triggers :: "string \<Rightarrow> string list" where
  "identify_emotional_triggers text =
    map fst (filter (\<lambda>(trigger, patterns). any_search patterns text) trigger_patterns)"

section \<open>Meta-emotional analysis\<close>

definition calculate_emotion_coherence :: "real \<Rightarrow> real \<Rightarrow> real \<Rightarrow> real \<Rightarrow> real" where
  "calculate_emotion_coherence frustration engagement confidence satisfaction =
    (let frustration_satisfaction_coherence = 1.0 - \<bar>(1 - satisfaction) - frustration\<bar>;
         engagement_confidence_coherence = 1.0 - \<bar>engagement - confidence\<bar>
     in frustration_satisfaction_coherence * 0.6 + engagement_confidence_coherence * 0.4)"

definition authentic_markers :: "regex list" where
  "authentic_markers =
    [Lit ''honestly'', Lit ''to be honest'', Lit ''frankly'', Lit ''to tell the truth'',
     seqs [Lit ''I '', alts [''really'', ''truly''], Lit '' '',
           alts [''feel'', ''think'', ''believe'']],
     Lit ''I'm not going to lie'']"

definition mixed_message_patterns :: "regex list" where
  "mixed_message_patterns =
    [seqs [alts [''good'', ''great'', ''excellent''], AnyStar,
           alts [''but'', ''however'', ''though'']],
     seqs [alts [''like'', ''enjoy''], AnyStar, alts [''but'', ''however'', ''though'']],
     seqs [alts [''not complaining'', ''don't want to complain''], AnyStar,
           alts [''but'', ''however'', ''though'']]]"

definition calculate_sentiment_authenticity :: "string \<Rightarrow> bool \<Rightarrow> real" where
  "calculate_sentiment_authenticity text hidden_dissatisfaction =
    (let authenticity = 0.8;
         authenticity1 = (if hidden_dissatisfaction then authenticity - 0.3 else authenticity);
         authenticity2 = (if any_search authentic_markers text then authenticity1 + 0.1
                          else authenticity1);
         authenticity3 = (if any_search mixed_message_patterns text then authenticity2 - 0.15
                          else authenticity2)
     in max (min authenticity3 1.0) 0.0)"

definition emotion_words :: "string list" where
  "emotion_words =
    [''happy'', ''sad'', ''angry'', ''frustrated'', ''confused'', ''anxious'', ''excited'',
     ''bored'', ''interested'', ''confident'', ''worried'', ''overwhelmed'', ''satisfied'',
     ''disappointed'', ''hopeful'', ''discouraged'', ''grateful'', ''annoyed'', ''proud'']"

definition mixed_feelings_patterns :: "regex list" where
  "mixed_feelings_patterns =
    [Lit ''mixed feelings'', Lit ''conflicted'', Lit ''torn'',
     seqs [Lit ''on one hand'', AnyStar, Lit ''on the other''],
     seqs [Lit ''part of me'', AnyStar, Lit ''another part''],
     Lit ''both happy and'', Lit ''both frustrated and'']"

definition determine_emotional_complexity :: "string \<Rightarrow> string" where
  "determine_emotional_complexity text =
    (let distinct_emotions = remdups (filter (\<lambda>word. contains word (lower text))
                                             emotion_words);
         emotion_count = length distinct_emotions;
         has_positive = any_phrase [''happy'', ''excited'', ''interested'', ''confident'',
                                    ''satisfied'', ''hopeful'', ''grateful'', ''proud''] text;
         has_negative = any_phrase [''sad'', ''angry'', ''frustrated'', ''confused'',
                                    ''anxious'', ''bored'', ''worried'', ''overwhelmed'',
                                    ''disappointed'', ''discouraged'', ''annoyed''] text;
         has_contradiction = (has_positive \<and> has_negative);
         has_explicit_conflict = any_search mixed_feelings_patterns text
     in if has_explicit_conflict \<or> (has_contradiction \<and> emotion_count \<ge> 3)
        then ''conflicted''
        else if emotion_count \<ge> 4 \<or> (has_contradiction \<and> emotion_count \<ge> 2)
        then ''complex''
        else if emotion_count \<ge> 2 then ''mixed''
        else ''simple'')"

section \<open>The emotion profile\<close>

record EmotionProfile =
  frustration_level :: real
  engagement_level :: real
  confidence_level :: real
  satisfaction_level :: real
  frustration_type :: string
  frustration_intensity :: string
  frustration_trend :: string
  urgency_level :: string
  urgency_signals :: "string list"
  response_urgency :: string
  emotional_temperature :: real
  emotional_volatility :: real
  emotional_trajectory :: string
  hidden_dissatisfaction_flag :: bool
  hidden_dissatisfaction_confidence :: real
  hidden_signals :: "string list"
  politeness_mask_level :: real
  dropout_risk_emotions :: "string list"
  positive_recovery_indicators :: "string list"
  emotional_triggers :: "string list"
  emotion_coherence :: real
  sentiment_authenticity :: real
  emotional_complexity :: string

text \<open>Sequencing: the first exception raised ends the call.\<close>

definition and_then :: "error + 'a \<Rightarrow> ('a \<Rightarrow> error + 'b) \<Rightarrow> error + 'b" where
  "and_then m f = (case m of Inl e \<Rightarrow> Inl e | Inr v \<Rightarrow> f v)"

definition analyze_text ::
  "string \<Rightarrow> (string \<times> int) list option \<Rightarrow> hist_entry list option \<Rightarrow> error + EmotionProfile" where
  "analyze_text text aspect_scores historical_data =
    (let frustration = detect_frustration_level text in
     and_then (detect_engagement_level text) (\<lambda>engagement.
     and_then (detect_confidence_level text) (\<lambda>confidence.
     and_then (calculate_satisfaction_level text aspect_scores) (\<lambda>satisfaction.
     and_then (determine_frustration_type text) (\<lambda>ftype.
     and_then (determine_frustration_trend historical_data) (\<lambda>trend.
     and_then (calculate_emotional_temperature text) (\<lambda>temperature.
     and_then (calculate_emotional_volatility historical_data) (\<lambda>volatility.
     and_then (determine_emotional_trajectory historical_data) (\<lambda>trajectory.
       (let urgency = detect_urgency text;
            hidden = analyze_hidden_dissatisfaction text satisfaction
        in Inr \<lparr>
             frustration_level = frustration,
             engagement_level = engagement,
             confidence_level = confidence,
             satisfaction_level = satisfaction,
             frustration_type = ftype,
             frustration_intensity = determine_frustration_intensity frustration,
             frustration_trend = trend,
             urgency_level = urgency,
             urgency_signals = detect_urgency_signals text,
             response_urgency = determine_response_urgency urgency frustration,
             emotional_temperature = temperature,
             emotional_volatility = volatility,
             emotional_trajectory = trajectory,
             hidden_dissatisfaction_flag = fst hidden,
             hidden_dissatisfaction_confidence = fst (snd hidden),
             hidden_signals = snd (snd hidden),
             politeness_mask_level = calculate_politeness_mask text (fst hidden),
             dropout_risk_emotions = detect_dropout_risk_emotions text,
             positive_recovery_indicators = detect_positive_recovery_indicators text,
             emotional_triggers = identify_emotional_triggers text,
             emotion_coherence =
               calculate_emotion_coherence frustration engagement confidence satisfaction,
             sentiment_authenticity = calculate_sentiment_authenticity text (fst hidden),
             emotional_complexity = determine_emotional_complexity text
           \<rparr>))))))))))"

section \<open>Well-formedness of a profile\<close>

text \<open>
  The ranges the profile's fields are documented to lie in: every float in \<open>[0, 1]\<close>,
  every categorical field in its enumeration.
\<close>

definition unit_interval :: "real \<Rightarrow> bool" where
  "unit_interval x = (0 \<le> x \<and> x \<le> 1)"

definition float_fields_in_unit :: "EmotionProfile \<Rightarrow> bool" where
  "float_fields_in_unit p =
    (unit_interval (frustration_level p) \<and> unit_interval (engagement_level p)
     \<and> unit_interval (confidence_level p) \<and> unit_interval (satisfaction_level p)
     \<and> unit_interval (emotional_temperature p) \<and> unit_interval (emotional_volatility p)
     \<and> unit_interval (hidden_dissatisfaction_confidence p)
     \<and> unit_interval (politeness_mask_level p)
     \<and> unit_interval (emotion_coherence p) \<and> unit_interval (sentiment_authenticity p))"

definition categorical_fields_in_enum :: "EmotionProfile \<Rightarrow> bool" where
  "categorical_fields_in_enum p =
    (frustration_type p \<in> set [''technical'', ''content'', ''pace'', ''support'', ''mixed'']
     \<and> frustration_intensity p \<in> set [''mild'', ''moderate'', ''severe'', ''critical'']
     \<and> frustration_trend p \<in> set [''increasing'', ''decreasing'', ''stable'', ''spiking'']
     \<and> urgency_level p \<in> set [''low'', ''medium'', ''high'', ''critical'', ''immediate'']
     \<and> response_urgency p \<in> set [''within_hour'', ''same_day'', ''within_week'', ''routine'']
     \<and> emotional_trajectory p \<in> set [''improving'', ''declining'', ''neutral'', ''fluctuating'']
     \<and> emotional_complexity p \<in> set [''simple'', ''mixed'', ''complex'', ''conflicted''])"

definition aspect_scores_in_range :: "(string \<times> int) list option \<Rightarrow> bool" where
  "aspect_scores_in_range a =
    (case a of None \<Rightarrow> True | Some sc \<Rightarrow> list_all (\<lambda>kv. 1 \<le> snd kv \<and> snd kv \<le> 5) sc)"


section \<open>Aspect scores within the float range\<close>

text \<open>
  The aspect scores whose mean \<^verbatim>\<open>sum(aspect_scores.values()) / len(aspect_scores)\<close> is
  within the range of a float: no map, an empty one, or one whose mean does not overflow.
\<close>

definition aspect_mean_fits :: "(string \<times> int) list option \<Rightarrow> bool" where
  "aspect_mean_fits a =
    (case a of
       Some (item # items) \<Rightarrow>
         \<not> float_overflow (real_of_int (sum_list (map snd (item # items)))
                             / real (length (item # items)))
     | _ \<Rightarrow> True)"

section \<open>Blank texts\<close>

text \<open>
  A text is blank when it is empty or made of whitespace only, the characters for which
  \<^verbatim>\<open>str.isspace\<close> holds.  \<open>has_ink w\<close> says that
  the phrase \<open>w\<close> has a character that is not whitespace, \<open>needs_ink r\<close> that every match of
  the pattern \<open>r\<close> has one: neither can occur in a blank text.  \<open>blank_profile\<close> is the
  profile of a text in which no lexicon entry and no pattern is found.
\<close>

definition whitespace_chars :: string where
  "whitespace_chars =
    [CHR 0x09, CHR 0x0A, CHR 0x0B, CHR 0x0C, CHR 0x0D, CHR 0x1C, CHR 0x1D, CHR 0x1E, CHR 0x1F,
     CHR 0x20, CHR 0x85, CHR 0xA0]"

definition is_blank :: "string \<Rightarrow> bool" where
  "is_blank text = list_all (\<lambda>c. c \<in> set whitespace_chars) text"

definition has_ink :: "string \<Rightarrow> bool" where
  "has_ink w = list_ex (\<lambda>c. c \<notin> set whitespace_chars) w"

primrec needs_ink :: "regex \<Rightarrow> bool" where
  "needs_ink (Lit w) = has_ink w"
| "needs_ink (Seq a b) = (needs_ink a \<or> needs_ink b)"
| "needs_ink (Alt a b) = (needs_ink a \<and> needs_ink b)"
| "needs_ink (Opt a) = False"
| "needs_ink AnyStar = False"


definition blank_profile :: EmotionProfile where
  "blank_profile = \<lparr>
        frustration_level = 0, engagement_level = 1 / 2, confidence_level = 1 / 2,
        satisfaction_level = 1 / 2, frustration_type = ''mixed'',
        frustration_intensity = ''mild'', frustration_trend = ''stable'',
        urgency_level = ''low'', urgency_signals = [], response_urgency = ''routine'',
        emotional_temperature = 1 / 2, emotional_volatility = 3 / 10,
        emotional_trajectory = ''neutral'', hidden_dissatisfaction_flag = False,
        hidden_dissatisfaction_confidence = 0, hidden_signals = [],
        politeness_mask_level = 0, dropout_risk_emotions = [],
        positive_recovery_indicators = [], emotional_triggers = [],
        emotion_coherence = 7 / 10, sentiment_authenticity = 4 / 5,
        emotional_complexity = ''simple'' \<rparr>"

section \<open>Scenarios of the specification\<close>

text \<open>The text of the specification's scenario B.\<close>

definition scenario_b :: string where
  "scenario_b = ''The course is fine I guess, somewhat helpful, probably just me''"

text \<open>
  The specification's reading of a malformed aspect score, for comparison with the code:
  an entry whose value is outside 1..5 is dropped before the scores are averaged.
\<close>

definition ignore_malformed :: "(string \<times> int) list option \<Rightarrow> (string \<times> int) list option" where
  "ignore_malformed aspect_scores =
    map_option (filter (\<lambda>kv. 1 \<le> snd kv \<and> snd kv \<le> 5)) aspect_scores"

section \<open>Urgency: properties\<close>

text \<open>
  C10.  Whenever the lowercased text contains \<open>urgent\<close> as a substring, the urgency level
  is \<open>immediate\<close>: the immediate phrase set lists \<open>urgent\<close> and is scanned first, so the
  low-urgency phrase \<open>not urgent\<close> can never win.
\<close>

theorem detect_urgency_urgent_immediate:
  "contains ''urgent'' (lower text) \<Longrightarrow> detect_urgency text = ''immediate''"
  by (simp add: detect_urgency_def urgency_phrases_def any_phrase_def)

theorem detect_urgency_urgent_immediate_witness:
  "contains ''urgent'' (lower ''This is NOT urgent at all'')
   \<and> contains ''not urgent'' (lower ''This is NOT urgent at all'')
   \<and> detect_urgency ''This is NOT urgent at all'' = ''immediate''"
proof -
  have h: "contains ''urgent'' (lower ''This is NOT urgent at all'')" by code_simp
  have h': "contains ''not urgent'' (lower ''This is NOT urgent at all'')" by code_simp
  from h h' detect_urgency_urgent_immediate [OF h] show ?thesis by (intro conjI)
qed

section \<open>Analyzer: ranges of the primary levels\<close>

lemma truediv_Inr: "y \<noteq> 0 \<Longrightarrow> truediv x y = Inr (x / y)"
  by (simp add: truediv_def)

lemma overflow_bound_large: "(1000::real) < 2 ^ 1024 - 2 ^ 970"
proof -
  have e: "(2::real) ^ 1024 = 2 ^ 54 * 2 ^ 970"
    by (simp only: power_add[symmetric]) simp
  have a: "(1::real) \<le> 2 ^ 970" by (rule one_le_power) simp
  have b: "(1001::real) \<le> 2 ^ 54 - 1" by simp
  have "(1001::real) * 1 \<le> (2 ^ 54 - 1) * 2 ^ 970"
    by (rule mult_mono[OF b a]) simp_all
  also have "\<dots> = 2 ^ 54 * 2 ^ 970 - 2 ^ 970" by (simp only: left_diff_distrib mult_1)
  finally have "(1001::real) \<le> 2 ^ 1024 - 2 ^ 970" by (simp only: e mult_1_right)
  then show ?thesis by linarith
qed

lemma small_not_overflow: "\<bar>q\<bar> \<le> 1000 \<Longrightarrow> \<not> float_overflow q"
  unfolding float_overflow_def using overflow_bound_large by linarith

lemma int_truediv_Inr:
  "b \<noteq> 0 \<Longrightarrow> \<not> float_overflow (real_of_int a / real_of_int b)
   \<Longrightarrow> int_truediv a b = Inr (real_of_int a / real_of_int b)"
  by (simp add: int_truediv_def)

lemma int_truediv_overflow:
  "b \<noteq> 0 \<Longrightarrow> float_overflow (real_of_int a / real_of_int b)
   \<Longrightarrow> int_truediv a b = Inl OverflowError"
  by (simp add: int_truediv_def)

lemma nat_ratio_Inr:
  fixes p t :: nat
  assumes "p \<le> t" "0 < t"
  shows "int_truediv (int p) (int t) = Inr (real p / real t)"
    and "0 \<le> real p / real t" and "real p / real t \<le> 1"
proof -
  have pos: "0 < real t" using assms(2) by simp
  show nn: "0 \<le> real p / real t" by simp
  have "real p \<le> real t" using assms(1) by simp
  then show le: "real p / real t \<le> 1" using pos by (simp only: divide_le_eq_1_pos)
  have "\<bar>real p / real t\<bar> \<le> 1000" using nn le by simp
  then have "\<not> float_overflow (real_of_int (int p) / real_of_int (int t))"
    using small_not_overflow by simp
  moreover have "int t \<noteq> 0" using assms(2) by simp
  ultimately show "int_truediv (int p) (int t) = Inr (real p / real t)"
    using int_truediv_Inr[of "int t" "int p"] by simp
qed

lemma detect_frustration_level_range:
  "0 \<le> detect_frustration_level text \<and> detect_frustration_level text \<le> 1"
proof -
  define b where "b = real (count_hits (concat (map snd frustration_words) @ general_frustration) text)"
  define k where "k = real (count_hits strong_indicators text)"
  have "0 \<le> b" "0 \<le> k" by (simp_all add: b_def k_def)
  then have "0 \<le> b * 0.15 * (1.0 + 0.5 * k)" by simp
  then show ?thesis
    unfolding detect_frustration_level_def Let_def b_def[symmetric] k_def[symmetric]
    by (simp add: min_def max_def)
qed

lemma weighted_mean_range:
  fixes h m l :: nat
  assumes "0 < h + m + l"
  shows "0 \<le> (real h * 0.9 + real m * 0.5 + real l * 0.1) / real (h + m + l)"
    and "(real h * 0.9 + real m * 0.5 + real l * 0.1) / real (h + m + l) \<le> 1"
proof -
  have pos: "0 < real (h + m + l)" using assms by linarith
  have nn: "0 \<le> real h * 0.9 + real m * 0.5 + real l * 0.1" by simp
  show "0 \<le> (real h * 0.9 + real m * 0.5 + real l * 0.1) / real (h + m + l)"
    using nn pos by (rule divide_nonneg_pos)
  have "real h * 0.9 + real m * 0.5 + real l * 0.1 \<le> real (h + m + l)" by simp
  then show "(real h * 0.9 + real m * 0.5 + real l * 0.1) / real (h + m + l) \<le> 1"
    using pos by (simp only: divide_le_eq_1_pos)
qed

lemma weighted_level_range:
  "\<exists>v. weighted_level high medium low up down text = Inr v \<and> 0 \<le> v \<and> v \<le> 1"
proof -
  define h where "h = count_hits high text"
  define m where "m = count_hits medium text"
  define l where "l = count_hits low text"
  define w where "w = (real h * 0.9 + real m * 0.5 + real l * 0.1) / real (h + m + l)"
  show ?thesis
  proof (cases "0 < h + m + l")
    case True
    then have ne: "real (h + m + l) \<noteq> 0" by linarith
    from weighted_mean_range[OF True] have "0 \<le> w" "w \<le> 1" by (simp_all add: w_def)
    then show ?thesis
      unfolding weighted_level_def Let_def h_def[symmetric] m_def[symmetric] l_def[symmetric]
      using True by (simp only: truediv_Inr[OF ne] if_True w_def[symmetric] sum.case)
         (simp add: min_def max_def)
  next
    case False
    then show ?thesis
      unfolding weighted_level_def Let_def h_def[symmetric] m_def[symmetric] l_def[symmetric]
      by (simp add: min_def max_def)
  qed
qed

lemma aspect_mean_range:
  fixes vs :: "int list"
  assumes "vs \<noteq> []" and "\<forall>v \<in> set vs. 1 \<le> v \<and> v \<le> 5"
  shows "real (length vs) \<le> real_of_int (sum_list vs)"
    and "real_of_int (sum_list vs) \<le> 5 * real (length vs)"
proof -
  have "int (length vs) \<le> sum_list vs \<and> sum_list vs \<le> 5 * int (length vs)"
    using assms(2) by (induction vs) auto
  then show "real (length vs) \<le> real_of_int (sum_list vs)"
    and "real_of_int (sum_list vs) \<le> 5 * real (length vs)"
    by linarith+
qed

lemma text_satisfaction_range:
  "\<exists>v. calculate_satisfaction_level text None = Inr v \<and> 0 \<le> v \<and> v \<le> 1"
proof -
  define p where "p = count_hits [''satisfied'', ''happy'', ''pleased'', ''great'', ''excellent'',
                                 ''good'', ''helpful''] text"
  define n where "n = count_hits [''unsatisfied'', ''unhappy'', ''disappointed'', ''poor'',
                                 ''terrible'', ''bad'', ''unhelpful''] text"
  show ?thesis
  proof (cases "0 < p + n")
    case True
    have le: "p \<le> p + n" by simp
    note r = nat_ratio_Inr[OF le True]
    have "calculate_satisfaction_level text None = Inr (real p / real (p + n))"
      unfolding calculate_satisfaction_level_def Let_def p_def[symmetric] n_def[symmetric]
      using True r(1) by (simp del: of_nat_add)
    then show ?thesis using r(2,3) by blast
  next
    case False
    then have "calculate_satisfaction_level text None = Inr (1 / 2)"
      unfolding calculate_satisfaction_level_def Let_def p_def[symmetric] n_def[symmetric]
      by simp
    then show ?thesis by (intro exI[of _ "1 / 2"]) simp
  qed
qed

lemma satisfaction_unfold:
  "calculate_satisfaction_level text a =
    (case calculate_satisfaction_level text None of
       Inl e \<Rightarrow> Inl e
     | Inr ts \<Rightarrow>
        (case a of
           Some (item # items) \<Rightarrow>
             (case int_truediv (sum_list (map snd (item # items)))
                               (int (length (item # items))) of
                Inl e \<Rightarrow> Inl e
              | Inr avg \<Rightarrow> Inr (ts * 0.6 + ((avg - 1) / 4) * 0.4))
         | _ \<Rightarrow> Inr ts))"
  unfolding calculate_satisfaction_level_def Let_def
  by (simp split: sum.splits option.splits list.splits)

lemma satisfaction_with_aspects:
  assumes "calculate_satisfaction_level text None = Inr ts" and "sc \<noteq> []"
    and "\<not> float_overflow (real_of_int (sum_list (map snd sc)) / real (length sc))"
  shows "calculate_satisfaction_level text (Some sc) =
         Inr (ts * 0.6 + ((real_of_int (sum_list (map snd sc)) / real (length sc) - 1) / 4) * 0.4)"
proof -
  obtain item items where sc: "sc = item # items" using assms(2) by (cases sc) auto
  have ne: "int (length sc) \<noteq> 0" using assms(2) by simp
  have "int_truediv (sum_list (map snd sc)) (int (length sc))
        = Inr (real_of_int (sum_list (map snd sc)) / real (length sc))"
    using int_truediv_Inr[OF ne, of "sum_list (map snd sc)"] assms(3) by simp
  then show ?thesis
    by (subst satisfaction_unfold) (simp add: assms(1) sc)
qed

lemma satisfaction_overflow:
  assumes "sc \<noteq> []"
    and "float_overflow (real_of_int (sum_list (map snd sc)) / real (length sc))"
  shows "calculate_satisfaction_level text (Some sc) = Inl OverflowError"
proof -
  obtain ts where ts: "calculate_satisfaction_level text None = Inr ts"
    using text_satisfaction_range by blast
  obtain item items where sc: "sc = item # items" using assms(1) by (cases sc) auto
  have ne: "int (length sc) \<noteq> 0" using assms(1) by simp
  have "int_truediv (sum_list (map snd sc)) (int (length sc)) = Inl OverflowError"
    using int_truediv_overflow[OF ne, of "sum_list (map snd sc)"] assms(2) by simp
  then show ?thesis
    by (subst satisfaction_unfold) (simp add: ts sc)
qed

lemma satisfaction_range:
  assumes "\<forall>kv \<in> set (case a of None \<Rightarrow> [] | Some sc \<Rightarrow> sc). 1 \<le> snd kv \<and> snd kv \<le> 5"
  shows "\<exists>v. calculate_satisfaction_level text a = Inr v \<and> 0 \<le> v \<and> v \<le> 1"
proof -
  obtain ts where ts: "calculate_satisfaction_level text None = Inr ts" "0 \<le> ts" "ts \<le> 1"
    using text_satisfaction_range by blast
  show ?thesis
  proof (cases a)
    case None
    with ts show ?thesis by simp
  next
    case (Some sc)
    show ?thesis
    proof (cases "sc = []")
      case True
      have "calculate_satisfaction_level text (Some []) = Inr ts"
        by (subst satisfaction_unfold) (simp add: ts(1))
      with ts Some True show ?thesis by simp
    next
      case False
      define vs where "vs = map snd sc"
      have vs: "vs \<noteq> []" "\<forall>v \<in> set vs. 1 \<le> v \<and> v \<le> 5"
        using False assms Some by (auto simp: vs_def)
      define q where "q = real_of_int (sum_list vs) / real (length vs)"
      have pos: "0 < real (length vs)" using vs(1) by simp
      have q: "1 \<le> q" "q \<le> 5"
        using aspect_mean_range[OF vs] pos by (simp_all add: q_def le_divide_eq divide_le_eq)
      then have "\<bar>q\<bar> \<le> 1000" by simp
      then have no: "\<not> float_overflow (real_of_int (sum_list (map snd sc)) / real (length sc))"
        using small_not_overflow by (simp add: q_def vs_def)
      have "0 \<le> ts * 0.6 + ((q - 1) / 4) * 0.4"
        using ts(2) q(1) by argo
      moreover have "ts * 0.6 + ((q - 1) / 4) * 0.4 \<le> 1"
        using ts(3) \<open>q \<le> 5\<close> by argo
      moreover have "calculate_satisfaction_level text (Some sc) = Inr (ts * 0.6 + ((q - 1) / 4) * 0.4)"
        using satisfaction_with_aspects[OF ts(1) False no] by (simp add: q_def vs_def)
      ultimately show ?thesis using Some by simp
    qed
  qed
qed

section \<open>Analyzer: categorical fields\<close>

lemma first_max_mem: "first_max best xs \<in> set (best # xs)"
  by (induction xs arbitrary: best) auto

lemma determine_frustration_type_enum:
  "\<exists>t. determine_frustration_type text = Inr t
       \<and> t \<in> set [''technical'', ''content'', ''pace'', ''support'', ''mixed'']"
proof -
  define ms where "ms = map (\<lambda>(ftype, keywords). (ftype, count_hits keywords text)) frustration_words"
  have keys: "map fst ms = [''technical'', ''content'', ''support'', ''pace'']"
    by (simp add: ms_def frustration_words_def)
  then obtain x xs where ms: "ms = x # xs" by (cases ms) auto
  have "first_max x xs \<in> set ms" using first_max_mem[of x xs] ms by simp
  then have "fst (first_max x xs) \<in> set (map fst ms)" by simp
  then have k: "fst (first_max x xs) \<in> set [''technical'', ''content'', ''support'', ''pace'']"
    using keys by simp
  obtain mt mc where fm: "first_max x xs = (mt, mc)" by (cases "first_max x xs")
  show ?thesis
    unfolding determine_frustration_type_def Let_def ms_def[symmetric]
    using k fm by (auto simp: ms max_key_def)
qed

lemma determine_frustration_intensity_enum:
  "determine_frustration_intensity x \<in> set [''mild'', ''moderate'', ''severe'', ''critical'']"
  by (simp add: determine_frustration_intensity_def)

lemma classify_change_enum:
  "\<exists>t. classify_change up down jump flat vals = Inr t \<and> t \<in> set [up, down, jump, flat]"
proof (cases vals)
  case Nil
  then show ?thesis by (simp add: classify_change_def)
next
  case (Cons latest rest)
  show ?thesis
  proof (cases rest)
    case Nil
    with Cons show ?thesis by (simp add: classify_change_def)
  next
    case (Cons p ps)
    have ne: "real (length (p # ps)) \<noteq> 0" by simp
    show ?thesis
      unfolding classify_change_def \<open>vals = latest # rest\<close> Cons Let_def
      by (simp only: list.case truediv_Inr[OF ne] sum.case) simp
  qed
qed

lemma swap_last_two: "t \<in> set [a, b, c, d] \<Longrightarrow> t \<in> set [a, b, d, c]"
  by auto

lemma determine_frustration_trend_enum:
  "\<exists>t. determine_frustration_trend h = Inr t
       \<and> t \<in> set [''increasing'', ''decreasing'', ''stable'', ''spiking'']"
proof -
  have "\<exists>t. classify_change ''increasing'' ''decreasing'' ''spiking'' ''stable'' vals = Inr t
       \<and> t \<in> set [''increasing'', ''decreasing'', ''stable'', ''spiking'']" for vals
  proof -
    obtain t where t: "classify_change ''increasing'' ''decreasing'' ''spiking'' ''stable'' vals = Inr t"
      "t \<in> set [''increasing'', ''decreasing'', ''spiking'', ''stable'']"
      using classify_change_enum by blast
    from t(2) have "t \<in> set [''increasing'', ''decreasing'', ''stable'', ''spiking'']"
      by (rule swap_last_two)
    with t(1) show ?thesis by blast
  qed
  then show ?thesis
    unfolding determine_frustration_trend_def by (simp split: option.splits)
qed

lemma determine_emotional_trajectory_enum:
  "\<exists>t. determine_emotional_trajectory h = Inr t
       \<and> t \<in> set [''improving'', ''declining'', ''neutral'', ''fluctuating'']"
proof -
  have "\<exists>t. classify_change ''improving'' ''declining'' ''fluctuating'' ''neutral'' vals = Inr t
       \<and> t \<in> set [''improving'', ''declining'', ''neutral'', ''fluctuating'']" for vals
  proof -
    obtain t where t: "classify_change ''improving'' ''declining'' ''fluctuating'' ''neutral'' vals = Inr t"
      "t \<in> set [''improving'', ''declining'', ''fluctuating'', ''neutral'']"
      using classify_change_enum by blast
    from t(2) have "t \<in> set [''improving'', ''declining'', ''neutral'', ''fluctuating'']"
      by (rule swap_last_two)
    with t(1) show ?thesis by blast
  qed
  then show ?thesis
    unfolding determine_emotional_trajectory_def by (simp split: option.splits)
qed

lemma first_level_enum: "first_level ps text \<in> set (''low'' # map fst ps)"
  by (induction ps) auto

lemma detect_urgency_enum:
  "detect_urgency text \<in> set [''low'', ''medium'', ''high'', ''critical'', ''immediate'']"
  using first_level_enum[of urgency_phrases "text"]
  by (auto simp: detect_urgency_def urgency_phrases_def)

lemma determine_response_urgency_enum:
  "determine_response_urgency u f \<in> set [''within_hour'', ''same_day'', ''within_week'', ''routine'']"
proof -
  have "get_or (urgency_mapping u) ''routine'' \<in> set [''within_hour'', ''same_day'', ''within_week'', ''routine'']"
    by (simp add: urgency_mapping_def get_or_def)
  then show ?thesis
    unfolding determine_response_urgency_def Let_def by auto
qed

lemma determine_emotional_complexity_enum:
  "determine_emotional_complexity text \<in> set [''simple'', ''mixed'', ''complex'', ''conflicted'']"
  by (simp add: determine_emotional_complexity_def Let_def)

section \<open>Analyzer: derived floats\<close>

lemma Inr_unitI:
  "m = Inr x \<Longrightarrow> 0 \<le> x \<Longrightarrow> x \<le> 1 \<Longrightarrow> \<exists>v. m = Inr v \<and> 0 \<le> (v::real) \<and> v \<le> 1"
  by blast

lemma temperature_core:
  assumes "base = Inr b" "0 \<le> caps" "0 \<le> ex"
  shows "\<exists>v. (case base of Inl e \<Rightarrow> Inl e
              | Inr base_temp \<Rightarrow>
                 Inr (min (min (max (base_temp * k) 0.0) 1.0 + min (ex * 0.05) 0.25
                           + min (caps * 0.5) 0.25) 1.0)) = Inr v \<and> 0 \<le> v \<and> v \<le> (1::real)"
proof -
  have "0 \<le> min (max (b * k) 0.0) 1.0" by simp
  moreover have "0 \<le> min (ex * 0.05) 0.25" using assms(3) by simp
  moreover have "0 \<le> min (caps * 0.5) 0.25" using assms(2) by simp
  ultimately have "0 \<le> min (max (b * k) 0.0) 1.0 + min (ex * 0.05) 0.25 + min (caps * 0.5) 0.25"
    by linarith
  then show ?thesis unfolding assms(1) by (simp only: sum.case) simp
qed

lemma calculate_emotional_temperature_range:
  "\<exists>v. calculate_emotional_temperature text = Inr v \<and> 0 \<le> v \<and> v \<le> 1"
proof -
  define hc where "hc = count_hits hot_words text"
  define cc where "cc = count_hits cold_words text"
  define base where "base = (if hc + cc = 0 then Inr 0.5
     else int_truediv (int hc) (int (hc + cc)))"
  have "\<exists>b. base = Inr b"
  proof (cases "hc + cc = 0")
    case True
    then have "base = Inr 0.5" unfolding base_def by simp
    then show ?thesis by blast
  next
    case False
    then have pos: "0 < hc + cc" by simp
    have le: "hc \<le> hc + cc" by simp
    from nat_ratio_Inr(1)[OF le pos] False have "base = Inr (real hc / real (hc + cc))"
      unfolding base_def by simp
    then show ?thesis by blast
  qed
  then obtain b where b: "base = Inr b" by blast
  define up where "up = length (filter isupper text)"
  define ln where "ln = max (length text) 1"
  have le: "up \<le> ln" unfolding up_def ln_def
    using length_filter_le[of isupper "text"] by linarith
  have pos: "0 < ln" unfolding ln_def by simp
  note r = nat_ratio_Inr[OF le pos]
  have ex: "0 \<le> real (count_list text (CHR ''!''))" by simp
  show ?thesis
    unfolding calculate_emotional_temperature_def Let_def hc_def[symmetric] cc_def[symmetric]
      base_def[symmetric] up_def[symmetric] ln_def[symmetric]
    apply (simp only: r(1) sum.case)
    apply (rule temperature_core[OF b r(2) ex])
    done
qed

lemma volatility_core:
  assumes "\<forall>c \<in> set cs. 0 \<le> c"
  shows "\<exists>v. (if cs \<noteq> []
              then (case truediv (sum_list cs) (real (length cs)) of
                      Inl e \<Rightarrow> Inl e
                    | Inr volatility \<Rightarrow> Inr (min (volatility * 2.5) 1.0))
              else Inr 0.3) = Inr v \<and> 0 \<le> v \<and> v \<le> (1::real)"
proof (cases "cs = []")
  case True
  then show ?thesis by (simp only: not_True_eq_False if_False simp_thms) (rule Inr_unitI[OF refl], simp_all)
next
  case False
  then have ne: "real (length cs) \<noteq> 0" by simp
  have "0 \<le> sum_list cs" using assms by (simp add: sum_list_nonneg)
  then have "0 \<le> sum_list cs / real (length cs)" by simp
  then have "0 \<le> min (sum_list cs / real (length cs) * 2.5) 1.0" by simp
  then show ?thesis using False
    by (simp only: truediv_Inr[OF ne] sum.case if_True simp_thms) (rule Inr_unitI[OF refl], simp_all)
qed

lemma calculate_emotional_volatility_range:
  "\<exists>v. calculate_emotional_volatility h = Inr v \<and> 0 \<le> v \<and> v \<le> 1"
proof (cases h)
  case None
  then have "calculate_emotional_volatility h = Inr 0.3"
    by (simp add: calculate_emotional_volatility_def)
  then show ?thesis by (rule Inr_unitI) simp_all
next
  case (Some hist)
  show ?thesis
  proof (cases "length hist < 2")
    case True
    then have "calculate_emotional_volatility h = Inr 0.3"
      by (simp add: calculate_emotional_volatility_def Some)
    then show ?thesis by (rule Inr_unitI) simp_all
  next
    case False
    show ?thesis
      unfolding calculate_emotional_volatility_def Let_def Some
      using False
      apply (simp only: option.case if_False)
      apply (rule volatility_core)
      apply auto
      done
  qed
qed

lemma hidden_confidence_range:
  "0 \<le> fst (snd (analyze_hidden_dissatisfaction text s))
   \<and> fst (snd (analyze_hidden_dissatisfaction text s)) \<le> 1"
  by (simp add: analyze_hidden_dissatisfaction_def Let_def)

lemma calculate_politeness_mask_range:
  "0 \<le> calculate_politeness_mask text b \<and> calculate_politeness_mask text b \<le> 1"
proof -
  define n where "n = real (length (filter (\<lambda>phrase. contains phrase (lower text)) polite_phrases))"
  have "0 \<le> min (n * 0.2) 0.8" by (simp add: n_def)
  then show ?thesis
    unfolding calculate_politeness_mask_def Let_def n_def[symmetric]
    by (auto simp: min_def)
qed

lemma calculate_emotion_coherence_range:
  assumes "0 \<le> f" "f \<le> 1" "0 \<le> e" "e \<le> 1" "0 \<le> c" "c \<le> 1" "0 \<le> s" "s \<le> 1"
  shows "0 \<le> calculate_emotion_coherence f e c s \<and> calculate_emotion_coherence f e c s \<le> 1"
proof -
  have a: "0 \<le> \<bar>(1 - s) - f\<bar>" "\<bar>(1 - s) - f\<bar> \<le> 1" using assms by linarith+
  have b: "0 \<le> \<bar>e - c\<bar>" "\<bar>e - c\<bar> \<le> 1" using assms by linarith+
  define x where "x = \<bar>(1 - s) - f\<bar>"
  define y where "y = \<bar>e - c\<bar>"
  have "0 \<le> (1.0 - x) * 0.6 + (1.0 - y) * 0.4" "(1.0 - x) * 0.6 + (1.0 - y) * 0.4 \<le> 1"
    using a b unfolding x_def[symmetric] y_def[symmetric] by argo+
  then show ?thesis
    unfolding calculate_emotion_coherence_def Let_def x_def[symmetric] y_def[symmetric] by simp
qed

lemma calculate_sentiment_authenticity_range:
  "0 \<le> calculate_sentiment_authenticity text b \<and> calculate_sentiment_authenticity text b \<le> 1"
  by (simp add: calculate_sentiment_authenticity_def Let_def)

section \<open>Analyzer: the profile as a whole\<close>

text \<open>
  C1.  For every text, every history and every aspect-score map whose values lie in 1..5,
  \<open>analyze_text\<close> returns a profile (it raises nothing) whose ten float fields lie in
  \<open>[0, 1]\<close> and whose seven categorical fields are members of their enumerations.
\<close>

theorem analyze_text_fields_in_range:
  assumes "aspect_scores_in_range a"
  shows "\<exists>p. analyze_text text a h = Inr p \<and> float_fields_in_unit p
             \<and> categorical_fields_in_enum p"
proof -
  have rng: "\<forall>kv \<in> set (case a of None \<Rightarrow> [] | Some sc \<Rightarrow> sc). 1 \<le> snd kv \<and> snd kv \<le> 5"
    using assms by (auto simp: aspect_scores_in_range_def list_all_iff split: option.splits)
  note f = detect_frustration_level_range[of "text"]
  obtain e where e: "detect_engagement_level text = Inr e" "0 \<le> e" "e \<le> 1"
    unfolding detect_engagement_level_def using weighted_level_range by blast
  obtain c where c: "detect_confidence_level text = Inr c" "0 \<le> c" "c \<le> 1"
    unfolding detect_confidence_level_def using weighted_level_range by blast
  obtain s where s: "calculate_satisfaction_level text a = Inr s" "0 \<le> s" "s \<le> 1"
    using satisfaction_range[OF rng] by blast
  obtain ft where ft: "determine_frustration_type text = Inr ft"
    "ft \<in> set [''technical'', ''content'', ''pace'', ''support'', ''mixed'']"
    using determine_frustration_type_enum by blast
  obtain tr where tr: "determine_frustration_trend h = Inr tr"
    "tr \<in> set [''increasing'', ''decreasing'', ''stable'', ''spiking'']"
    using determine_frustration_trend_enum by blast
  obtain tm where tm: "calculate_emotional_temperature text = Inr tm" "0 \<le> tm" "tm \<le> 1"
    using calculate_emotional_temperature_range by blast
  obtain vo where vo: "calculate_emotional_volatility h = Inr vo" "0 \<le> vo" "vo \<le> 1"
    using calculate_emotional_volatility_range by blast
  obtain tj where tj: "determine_emotional_trajectory h = Inr tj"
    "tj \<in> set [''improving'', ''declining'', ''neutral'', ''fluctuating'']"
    using determine_emotional_trajectory_enum by blast
  have coh: "unit_interval (calculate_emotion_coherence (detect_frustration_level text) e c s)"
    unfolding unit_interval_def
    using calculate_emotion_coherence_range f e(2,3) c(2,3) s(2,3) by blast
  show ?thesis
    unfolding analyze_text_def Let_def and_then_def e(1) c(1) s(1) ft(1) tr(1) tm(1) vo(1) tj(1)
    apply (simp only: sum.case)
    apply (rule exI, rule conjI, rule refl)
    apply (rule conjI)
    subgoal
      unfolding float_fields_in_unit_def
      using f e c s tm vo coh hidden_confidence_range[of "text" s]
        calculate_politeness_mask_range calculate_sentiment_authenticity_range
      by (simp add: unit_interval_def)
    subgoal
      unfolding categorical_fields_in_enum_def
      using ft(2) tr(2) tj(2) determine_frustration_intensity_enum detect_urgency_enum
        determine_response_urgency_enum determine_emotional_complexity_enum
      by (simp del: set_simps)
    done
qed

theorem analyze_text_fields_in_range_witness:
  "aspect_scores_in_range (Some [(''content'', 5), (''pace'', 1)])
   \<and> (\<exists>p. analyze_text ''This is URGENT!'' (Some [(''content'', 5), (''pace'', 1)]) None = Inr p
          \<and> float_fields_in_unit p \<and> categorical_fields_in_enum p)"
proof -
  have h: "aspect_scores_in_range (Some [(''content'', 5), (''pace'', 1)])"
    by (simp add: aspect_scores_in_range_def)
  show ?thesis
    using h analyze_text_fields_in_range [OF h, of "''This is URGENT!''" None]
    by (rule conjI)
qed

section \<open>Analyzer: blank texts\<close>

lemma whitespace_lower_fixed: "list_all (\<lambda>c. lower_char c = c) whitespace_chars"
  by code_simp

lemma lower_char_whitespace: "c \<in> set whitespace_chars \<Longrightarrow> lower_char c = c"
  using whitespace_lower_fixed by (simp add: list_all_iff)

lemma lower_blank: "is_blank text \<Longrightarrow> lower text = text"
  by (induction "text") (simp_all add: is_blank_def lower_def lower_char_whitespace)

lemma starts_with_append: "starts_with w s \<Longrightarrow> \<exists>t. s = w @ t"
  by (induction w arbitrary: s) (auto split: list.splits)

lemma contains_subset: "contains w s \<Longrightarrow> set w \<subseteq> set s"
proof (induction s)
  case Nil
  then show ?case by simp
next
  case (Cons c s)
  from Cons.prems have "starts_with w (c # s) \<or> contains w s" by simp
  then show ?case
  proof
    assume "starts_with w (c # s)"
    then obtain t where "c # s = w @ t" using starts_with_append by blast
    then have "set (c # s) = set w \<union> set t" by (metis set_append)
    then show ?thesis by blast
  next
    assume "contains w s"
    then have "set w \<subseteq> set s" by (rule Cons.IH)
    then show ?thesis by auto
  qed
qed

lemma ink_not_contained:
  assumes "is_blank s" "has_ink w"
  shows "\<not> contains w s"
proof
  assume "contains w s"
  then have "set w \<subseteq> set s" by (rule contains_subset)
  moreover have "set s \<subseteq> set whitespace_chars" using assms(1) by (auto simp: is_blank_def list_all_iff)
  moreover obtain c where "c \<in> set w" "c \<notin> set whitespace_chars"
    using assms(2) by (auto simp: has_ink_def list_ex_iff)
  ultimately show False by blast
qed

lemma count_hits_blank:
  assumes "is_blank text" "list_all (\<lambda>w. has_ink (lower w)) ws"
  shows "count_hits ws text = 0"
  using assms ink_not_contained[of "text"]
  by (auto simp: count_hits_def lower_blank list_all_iff filter_empty_conv)

lemma filter_contains_blank:
  assumes "is_blank text" "list_all has_ink ws"
  shows "filter (\<lambda>w. contains w (lower text)) ws = []"
  using assms ink_not_contained[of "text"]
  by (auto simp: lower_blank list_all_iff filter_empty_conv)

lemma any_phrase_blank:
  assumes "is_blank text" "list_all has_ink ps"
  shows "\<not> any_phrase ps text"
  using assms ink_not_contained[of "text"]
  by (auto simp: any_phrase_def lower_blank list_all_iff list_ex_iff)

lemma rmatch_suffix: "t \<in> set (rmatch r s) \<Longrightarrow> set t \<subseteq> set s"
proof (induction r arbitrary: s t)
  case (Lit w)
  then have "t = drop (length w) s" by (simp split: if_splits)
  then show ?case by (simp add: set_drop_subset)
next
  case (Seq a b)
  from Seq.prems obtain u where u: "u \<in> set (rmatch a s)" "t \<in> set (rmatch b u)" by auto
  from Seq.IH(1)[OF u(1)] Seq.IH(2)[OF u(2)] show ?case by blast
next
  case (Alt a b)
  from Alt.prems have "t \<in> set (rmatch a s) \<or> t \<in> set (rmatch b s)" by simp
  then show ?case using Alt.IH by blast
next
  case (Opt a)
  from Opt.prems have "t \<in> set (rmatch a s) \<or> t = s" by auto
  then show ?case using Opt.IH by blast
next
  case AnyStar
  then obtain n where "t = drop n s" by auto
  then show ?case by (simp add: set_drop_subset)
qed

lemma rmatch_blank:
  assumes "needs_ink r" "set s \<subseteq> set whitespace_chars"
  shows "rmatch r s = []"
  using assms
proof (induction r arbitrary: s)
  case (Lit w)
  have "\<not> starts_with w s"
  proof
    assume "starts_with w s"
    then obtain t where "s = w @ t" using starts_with_append by blast
    then have "set w \<subseteq> set whitespace_chars" using Lit.prems(2) by auto
    then show False using Lit.prems(1) by (auto simp: has_ink_def list_ex_iff)
  qed
  then show ?case by simp
next
  case (Seq a b)
  show ?case
  proof (cases "needs_ink a")
    case True
    then show ?thesis using Seq.IH(1)[OF True Seq.prems(2)] by simp
  next
    case False
    then have nb: "needs_ink b" using Seq.prems(1) by simp
    have "rmatch b t = []" if "t \<in> set (rmatch a s)" for t
      using Seq.IH(2)[OF nb] rmatch_suffix[OF that] Seq.prems(2) by blast
    then show ?thesis by simp
  qed
next
  case (Alt a b)
  then show ?case by simp
next
  case (Opt a)
  then show ?case by simp
next
  case AnyStar
  then show ?case by simp
qed

lemma re_search_blank:
  assumes "needs_ink r" "is_blank s"
  shows "\<not> re_search r s"
proof -
  have "set s \<subseteq> set whitespace_chars \<Longrightarrow> \<not> re_search r s"
    by (induction s) (simp_all add: rmatch_blank[OF assms(1)])
  then show ?thesis using assms(2) by (auto simp: is_blank_def list_all_iff)
qed

lemma any_search_blank:
  assumes "is_blank text" "list_all needs_ink rs"
  shows "\<not> any_search rs text"
  using assms re_search_blank[of _ "text"]
  by (auto simp: any_search_def lower_blank list_all_iff list_ex_iff)

lemma tags_of_blank:
  assumes "is_blank text" "list_all (\<lambda>p. needs_ink (fst p)) ps"
  shows "tags_of ps text = []"
  using assms re_search_blank[of _ "text"]
  by (auto simp: tags_of_def lower_blank list_all_iff filter_empty_conv)

lemma frustration_lexicon_ink:
  "list_all (\<lambda>w. has_ink (lower w)) (concat (map snd frustration_words) @ general_frustration)"
  "list_all (\<lambda>w. has_ink (lower w)) strong_indicators"
  "list_all needs_ink explicit_patterns"
  by code_simp+

lemma detect_frustration_level_blank:
  assumes "is_blank text"
  shows "detect_frustration_level text = 0"
  by (simp add: detect_frustration_level_def Let_def
      count_hits_blank[OF assms frustration_lexicon_ink(1)]
      any_search_blank[OF assms frustration_lexicon_ink(3)])

lemma weighted_level_blank:
  assumes "is_blank text"
    and "list_all (\<lambda>w. has_ink (lower w)) high" "list_all (\<lambda>w. has_ink (lower w)) medium"
    and "list_all (\<lambda>w. has_ink (lower w)) low" "needs_ink up" "needs_ink down"
  shows "weighted_level high medium low up down text = Inr (1 / 2)"
  using assms
  by (simp add: weighted_level_def Let_def count_hits_blank re_search_blank lower_blank)

lemma detect_engagement_level_blank:
  "is_blank text \<Longrightarrow> detect_engagement_level text = Inr (1 / 2)"
  unfolding detect_engagement_level_def
  by (rule weighted_level_blank, assumption, code_simp+)

lemma detect_confidence_level_blank:
  "is_blank text \<Longrightarrow> detect_confidence_level text = Inr (1 / 2)"
  unfolding detect_confidence_level_def
  by (rule weighted_level_blank, assumption, code_simp+)

lemma has_ink_Cons: "has_ink (c # w) = (c \<notin> set whitespace_chars \<or> has_ink w)"
  by (simp add: has_ink_def)

lemma has_ink_Nil: "has_ink [] = False"
  by (simp add: has_ink_def)

lemma lower_char_ink: "lower_char c \<in> set whitespace_chars \<longleftrightarrow> c \<in> set whitespace_chars"
proof (cases "c \<in> set upper_chars")
  case True
  have "list_all (\<lambda>c. lower_char c \<notin> set whitespace_chars \<and> c \<notin> set whitespace_chars) upper_chars"
    by code_simp
  with True show ?thesis by (simp add: list_all_iff)
next
  case False
  then have "map_of (zip upper_chars lower_chars) c = None"
    by (simp add: map_of_eq_None_iff upper_chars_def lower_chars_def)
  then show ?thesis by (simp add: lower_char_def)
qed

lemma has_ink_lower: "has_ink (lower w) = has_ink w"
  by (simp add: has_ink_def lower_def list_ex_iff lower_char_ink)

lemma count_hits_blank_plain:
  assumes "is_blank text" "list_all has_ink ws"
  shows "count_hits ws text = 0"
  using assms by (intro count_hits_blank) (simp_all add: has_ink_lower)

lemma ink_simps:
  "list_all P [] = True" "list_all P (x # xs) = (P x \<and> list_all P xs)"
  "has_ink [] = False" "has_ink (c # w) = (c \<notin> set whitespace_chars \<or> has_ink w)"
  by (simp_all add: has_ink_def)

lemma calculate_satisfaction_level_blank:
  assumes "is_blank text"
  shows "calculate_satisfaction_level text None = Inr (1 / 2)"
  by (simp add: calculate_satisfaction_level_def Let_def count_hits_blank_plain[OF assms]
      has_ink_Cons whitespace_chars_def)

lemma needs_ink_simps:
  "needs_ink (alts [w]) = has_ink w"
  "needs_ink (alts (w # v # ws)) = (has_ink w \<and> needs_ink (alts (v # ws)))"
  "needs_ink (seqs [r]) = needs_ink r"
  "needs_ink (seqs (r # q # rs)) = (needs_ink r \<or> needs_ink (seqs (q # rs)))"
  by simp_all

lemma determine_frustration_type_blank:
  assumes "is_blank text"
  shows "determine_frustration_type text = Inr ''mixed''"
  by (simp add: determine_frustration_type_def Let_def frustration_words_def
      count_hits_blank_plain[OF assms] has_ink_Cons whitespace_chars_def)

lemma detect_urgency_blank:
  assumes "is_blank text"
  shows "detect_urgency text = ''low''"
  by (simp add: detect_urgency_def urgency_phrases_def any_phrase_blank[OF assms]
      has_ink_Cons whitespace_chars_def)

lemma detect_urgency_signals_blank:
  assumes "is_blank text"
  shows "detect_urgency_signals text = []"
  unfolding detect_urgency_signals_def
  by (rule tags_of_blank[OF assms]) code_simp

lemma count_list_blank:
  assumes "is_blank text" "c \<notin> set whitespace_chars"
  shows "count_list text c = 0"
  using assms by (induction "text") (auto simp: is_blank_def)

lemma filter_isupper_blank:
  assumes "is_blank text"
  shows "filter isupper text = []"
proof -
  have "list_all (\<lambda>c. \<not> isupper c) whitespace_chars" by code_simp
  then show ?thesis using assms
    by (auto simp: is_blank_def list_all_iff filter_empty_conv)
qed

lemma calculate_emotional_temperature_blank:
  assumes "is_blank text"
  shows "calculate_emotional_temperature text = Inr (1 / 2)"
proof -
  have ex: "count_list text (CHR ''!'') = 0"
    by (rule count_list_blank[OF assms]) (simp add: whitespace_chars_def)
  have h: "count_hits hot_words text = 0" "count_hits cold_words text = 0"
    "count_hits intensifiers text = 0"
    by (rule count_hits_blank[OF assms], code_simp)+
  have z: "int_truediv 0 (int (max (length text) (Suc 0))) = Inr 0"
    using nat_ratio_Inr(1)[of 0 "max (length text) (Suc 0)"] by simp
  show ?thesis
    by (simp add: calculate_emotional_temperature_def Let_def ex h
        filter_isupper_blank[OF assms] z)
qed

lemma analyze_hidden_dissatisfaction_blank:
  assumes "is_blank text"
  shows "analyze_hidden_dissatisfaction text s = (False, 0, [])"
proof -
  have "tags_of hidden_dissatisfaction_patterns text = []"
    by (rule tags_of_blank[OF assms]) code_simp
  moreover have "tags_of reservation_patterns text = []"
    by (rule tags_of_blank[OF assms]) code_simp
  ultimately show ?thesis
    by (simp add: analyze_hidden_dissatisfaction_def)
qed

lemma detect_tags_blank:
  assumes "is_blank text" "list_all has_ink tags" "list_all (\<lambda>p. list_all has_ink (snd p)) phrases"
  shows "detect_tags tags phrases text = []"
proof -
  have "fold (\<lambda>(tag, ps) detected.
            if any_phrase ps text \<and> tag \<notin> set detected then detected @ [tag] else detected)
         phrases acc = acc" for acc
    using assms(3)
  proof (induction phrases arbitrary: acc)
    case Nil
    then show ?case by simp
  next
    case (Cons p phrases)
    obtain tag ps where p: "p = (tag, ps)" by (cases p)
    have "\<not> any_phrase ps text"
      using any_phrase_blank[OF assms(1)] Cons.prems p by simp
    then show ?case using Cons p by simp
  qed
  then show ?thesis
    by (simp add: detect_tags_def filter_contains_blank[OF assms(1,2)])
qed

lemma detect_dropout_risk_emotions_blank:
  "is_blank text \<Longrightarrow> detect_dropout_risk_emotions text = []"
  unfolding detect_dropout_risk_emotions_def
  by (rule detect_tags_blank, assumption, code_simp+)

lemma detect_positive_recovery_indicators_blank:
  "is_blank text \<Longrightarrow> detect_positive_recovery_indicators text = []"
  unfolding detect_positive_recovery_indicators_def
  by (rule detect_tags_blank, assumption, code_simp+)

lemma identify_emotional_triggers_blank:
  assumes "is_blank text"
  shows "identify_emotional_triggers text = []"
proof -
  have ink: "list_all (\<lambda>p. list_all needs_ink (snd p)) trigger_patterns" by code_simp
  have "\<not> any_search (snd p) text" if "p \<in> set trigger_patterns" for p
    using any_search_blank[OF assms] ink that by (simp add: list_all_iff)
  then show ?thesis
    by (auto simp: identify_emotional_triggers_def filter_empty_conv)
qed

lemma calculate_sentiment_authenticity_blank:
  assumes "is_blank text"
  shows "calculate_sentiment_authenticity text False = 4 / 5"
proof -
  have "\<not> any_search authentic_markers text"
    by (rule any_search_blank[OF assms]) code_simp
  moreover have "\<not> any_search mixed_message_patterns text"
    by (rule any_search_blank[OF assms]) code_simp
  ultimately show ?thesis by (simp add: calculate_sentiment_authenticity_def)
qed

lemma determine_emotional_complexity_blank:
  assumes "is_blank text"
  shows "determine_emotional_complexity text = ''simple''"
proof -
  have "filter (\<lambda>word. contains word (lower text)) emotion_words = []"
    by (rule filter_contains_blank[OF assms]) code_simp
  moreover have "\<not> any_search mixed_feelings_patterns text"
    by (rule any_search_blank[OF assms]) code_simp
  ultimately show ?thesis
    by (simp add: determine_emotional_complexity_def Let_def)
qed


lemma calculate_politeness_mask_blank: "calculate_politeness_mask text False = 0"
  by (simp add: calculate_politeness_mask_def)


lemma satisfaction_total:
  assumes "aspect_mean_fits a"
  shows "\<exists>s. calculate_satisfaction_level text a = Inr s"
proof -
  obtain ts where ts: "calculate_satisfaction_level text None = Inr ts"
    using text_satisfaction_range by blast
  show ?thesis
  proof (cases a)
    case None
    with ts show ?thesis by simp
  next
    case (Some sc)
    show ?thesis
    proof (cases sc)
      case Nil
      have "calculate_satisfaction_level text (Some []) = Inr ts"
        by (subst satisfaction_unfold) (simp add: ts)
      with Some Nil show ?thesis by simp
    next
      case (Cons item items)
      then have ne: "sc \<noteq> []" by simp
      have "\<not> float_overflow (real_of_int (sum_list (map snd sc)) / real (length sc))"
        using assms Some Cons by (simp add: aspect_mean_fits_def)
      from satisfaction_with_aspects[OF ts ne this] Some show ?thesis by simp
    qed
  qed
qed

lemma analyze_text_satisfaction:
  assumes "calculate_satisfaction_level text a = Inr s"
  shows "\<exists>p. analyze_text text a h = Inr p \<and> satisfaction_level p = s
    \<and> hidden_dissatisfaction_flag p = fst (analyze_hidden_dissatisfaction text s)
    \<and> hidden_dissatisfaction_confidence p = fst (snd (analyze_hidden_dissatisfaction text s))
    \<and> hidden_signals p = snd (snd (analyze_hidden_dissatisfaction text s))"
proof -
  obtain e where e: "detect_engagement_level text = Inr e"
    unfolding detect_engagement_level_def using weighted_level_range by blast
  obtain c where c: "detect_confidence_level text = Inr c"
    unfolding detect_confidence_level_def using weighted_level_range by blast
  obtain ft where ft: "determine_frustration_type text = Inr ft"
    using determine_frustration_type_enum by blast
  obtain tr where tr: "determine_frustration_trend h = Inr tr"
    using determine_frustration_trend_enum by blast
  obtain tm where tm: "calculate_emotional_temperature text = Inr tm"
    using calculate_emotional_temperature_range by blast
  obtain vo where vo: "calculate_emotional_volatility h = Inr vo"
    using calculate_emotional_volatility_range by blast
  obtain tj where tj: "determine_emotional_trajectory h = Inr tj"
    using determine_emotional_trajectory_enum by blast
  show ?thesis
    unfolding analyze_text_def Let_def and_then_def e c assms ft tr tm vo tj
    by (simp only: sum.case) simp
qed

lemma analyze_text_blank_profile:
  assumes b: "is_blank text"
  shows "analyze_text text None None = Inr blank_profile"
  unfolding analyze_text_def Let_def and_then_def blank_profile_def
    detect_frustration_level_blank[OF b] detect_engagement_level_blank[OF b]
    detect_confidence_level_blank[OF b] calculate_satisfaction_level_blank[OF b]
    determine_frustration_type_blank[OF b] calculate_emotional_temperature_blank[OF b]
    detect_urgency_blank[OF b] detect_urgency_signals_blank[OF b]
    analyze_hidden_dissatisfaction_blank[OF b] detect_dropout_risk_emotions_blank[OF b]
    detect_positive_recovery_indicators_blank[OF b] identify_emotional_triggers_blank[OF b]
    determine_emotional_complexity_blank[OF b]
  by (simp add: determine_frustration_trend_def calculate_emotional_volatility_def
      determine_emotional_trajectory_def determine_frustration_intensity_def
      determine_response_urgency_def urgency_mapping_def get_or_def
      calculate_politeness_mask_blank calculate_sentiment_authenticity_blank[OF b]
      calculate_emotion_coherence_def)

lemma analyze_text_empty: "analyze_text [] None None = Inr blank_profile"
  by (rule analyze_text_blank_profile) (simp add: is_blank_def)

text \<open>
  C5 (as amended).  On a text that is empty or whitespace only, with no aspect scores and no
  history, \<open>analyze_text\<close> returns the blank profile: engagement, confidence and
  satisfaction are 0.5 but the frustration level is 0, all list fields are empty, the
  categorical fields are mixed / mild / stable / low / routine / neutral / simple and the
  hidden-dissatisfaction flag is false.  And \<open>analyze_text\<close> returns a profile, raising
  nothing, for every text, when the aspect scores are absent, empty, or have a mean that
  fits a float.
\<close>

theorem analyze_text_blank:
  "(is_blank text \<longrightarrow> analyze_text text None None = Inr blank_profile)
   \<and> (aspect_mean_fits aspect_scores \<longrightarrow>
        (\<exists>p. analyze_text any_text aspect_scores None = Inr p))"
proof (intro conjI impI)
  assume "is_blank text"
  then show "analyze_text text None None = Inr blank_profile"
    by (rule analyze_text_blank_profile)
next
  assume fits: "aspect_mean_fits aspect_scores"
  obtain s where "calculate_satisfaction_level any_text aspect_scores = Inr s"
    using satisfaction_total[OF fits] by blast
  then show "\<exists>p. analyze_text any_text aspect_scores None = Inr p"
    using analyze_text_satisfaction by blast
qed

theorem analyze_text_blank_witness:
  "is_blank [CHR '' '', CHR 0x09, CHR 0xA0]
   \<and> analyze_text [CHR '' '', CHR 0x09, CHR 0xA0] None None = Inr blank_profile
   \<and> aspect_mean_fits (Some [(''pace'', 9)])
   \<and> (\<exists>p. analyze_text ''I am lost'' (Some [(''pace'', 9)]) None = Inr p)"
proof -
  have b: "is_blank [CHR '' '', CHR 0x09, CHR 0xA0]" by code_simp
  have f: "aspect_mean_fits (Some [(''pace'', 9)])"
    using small_not_overflow[of 9] by (simp add: aspect_mean_fits_def)
  show ?thesis
    using b f analyze_text_blank [of "[CHR '' '', CHR 0x09, CHR 0xA0]" "Some [(''pace'', 9)]"
        "''I am lost''"]
    by blast
qed

text \<open>
  The claim as the specification states it asks for every primary level to be 0.5; the
  frustration level of the empty text is 0.
\<close>

theorem analyze_text_blank_counterexample:
  "\<not> (\<exists>p. analyze_text [] None None = Inr p \<and> frustration_level p = 1 / 2
          \<and> engagement_level p = 1 / 2 \<and> confidence_level p = 1 / 2
          \<and> satisfaction_level p = 1 / 2)"
  by (simp add: analyze_text_empty blank_profile_def)

section \<open>Analyzer: satisfaction and hidden dissatisfaction\<close>

lemma scenario_b_counts:
  "count_hits [''satisfied'', ''happy'', ''pleased'', ''great'', ''excellent'', ''good'',
               ''helpful''] scenario_b = 1"
  "count_hits [''unsatisfied'', ''unhappy'', ''disappointed'', ''poor'', ''terrible'', ''bad'',
               ''unhelpful''] scenario_b = 0"
  by code_simp+

lemma scenario_b_satisfaction: "calculate_satisfaction_level scenario_b None = Inr 1"
  using nat_ratio_Inr(1)[of 1 1]
  by (simp add: calculate_satisfaction_level_def Let_def scenario_b_counts)

lemma scenario_b_hidden:
  "analyze_hidden_dissatisfaction scenario_b 1
   = (True, 9 / 20, [''somewhat'', ''probably'', ''faint_praise''])"
  by code_simp

text \<open>
  C9 (the code at the text of scenario B).  With no aspect scores and no history the profile
  has the hidden-dissatisfaction flag set, from the three signals \<open>somewhat\<close>, \<open>probably\<close>
  and \<open>faint_praise\<close>; the text satisfaction is 1 (the one indicator found is \<open>helpful\<close>),
  so the base confidence 0.75 is reduced by 0.3 and the confidence comes out as 0.45, below
  the 0.5 the specification asks for.
\<close>

theorem scenario_b_hidden_dissatisfaction:
  "\<exists>p. analyze_text scenario_b None None = Inr p
       \<and> satisfaction_level p = 1
       \<and> hidden_dissatisfaction_flag p
       \<and> hidden_signals p = [''somewhat'', ''probably'', ''faint_praise'']
       \<and> hidden_dissatisfaction_confidence p = 0.45"
  using analyze_text_satisfaction[OF scenario_b_satisfaction, of None]
  by (auto simp: scenario_b_hidden)

text \<open>
  The same reduction on the text of the repository's accuracy test, which expects a
  confidence between 0.6 and 1: two signals give 0.5, less 0.3.
\<close>

lemma accuracy_test_hidden:
  "analyze_hidden_dissatisfaction
     ''The course is fine I guess. The materials are somewhat helpful.'' 1
   = (True, 1 / 5, [''somewhat'', ''faint_praise''])"
  by code_simp

text \<open>
  C8 (as amended).  For every text and every non-empty aspect-score map whose mean fits a
  float, whatever the values, \<open>analyze_text\<close> returns a profile, and its satisfaction level
  is 0.6 times the text satisfaction plus 0.4 times the normalized mean of all the scores:
  no entry is left out, so an out-of-range score moves the level.
\<close>

theorem satisfaction_uses_every_aspect:
  assumes "sc \<noteq> []" and "aspect_mean_fits (Some sc)"
  shows "\<exists>p ts. analyze_text text (Some sc) None = Inr p
          \<and> calculate_satisfaction_level text None = Inr ts
          \<and> satisfaction_level p
              = ts * 0.6 + ((real_of_int (sum_list (map snd sc)) / real (length sc) - 1) / 4) * 0.4"
proof -
  obtain ts where ts: "calculate_satisfaction_level text None = Inr ts"
    using text_satisfaction_range by blast
  obtain item items where sc: "sc = item # items" using assms(1) by (cases sc) auto
  have no: "\<not> float_overflow (real_of_int (sum_list (map snd sc)) / real (length sc))"
    using assms(2) by (simp add: aspect_mean_fits_def sc)
  from satisfaction_with_aspects[OF ts assms(1) no] analyze_text_satisfaction
  show ?thesis using ts by blast
qed

lemma scores_5_9_fit: "aspect_mean_fits (Some [(''content'', 5), (''pace'', 9)])"
  using small_not_overflow[of 7] by (simp add: aspect_mean_fits_def)

theorem satisfaction_uses_every_aspect_witness:
  "[(''content'', 5), (''pace'', 9 :: int)] \<noteq> []
   \<and> aspect_mean_fits (Some [(''content'', 5), (''pace'', 9)])
   \<and> (\<exists>p ts. analyze_text [] (Some [(''content'', 5), (''pace'', 9)]) None = Inr p
          \<and> calculate_satisfaction_level [] None = Inr ts
          \<and> satisfaction_level p = ts * 0.6 + ((real_of_int (5 + 9) / 2 - 1) / 4) * 0.4)"
  using satisfaction_uses_every_aspect [of "[(''content'', 5), (''pace'', 9)]" "[]"]
    scores_5_9_fit
  by simp

text \<open>
  Dropping the out-of-range entry, as the specification states, gives another level than
  the code computes: with scores 5 and 9 the code gives 0.9, the specification 0.7.
\<close>

lemma empty_text_satisfaction: "calculate_satisfaction_level [] None = Inr (1 / 2)"
  by (rule calculate_satisfaction_level_blank) (simp add: is_blank_def)

theorem satisfaction_ignores_malformed_counterexample:
  "calculate_satisfaction_level [] (Some [(''content'', 5), (''pace'', 9)]) = Inr (9 / 10)
   \<and> calculate_satisfaction_level [] (ignore_malformed (Some [(''content'', 5), (''pace'', 9)]))
       = Inr (7 / 10)
   \<and> calculate_satisfaction_level [] (Some [(''content'', 5), (''pace'', 9)])
       \<noteq> calculate_satisfaction_level [] (ignore_malformed (Some [(''content'', 5), (''pace'', 9)]))"
proof -
  have a: "calculate_satisfaction_level [] (Some [(''content'', 5), (''pace'', 9)]) = Inr (9 / 10)"
    using satisfaction_with_aspects[OF empty_text_satisfaction, of "[(''content'', 5), (''pace'', 9)]"]
      small_not_overflow[of 7]
    by simp
  have b: "calculate_satisfaction_level [] (ignore_malformed (Some [(''content'', 5), (''pace'', 9)]))
       = Inr (7 / 10)"
    using satisfaction_with_aspects[OF empty_text_satisfaction, of "[(''content'', 5)]"]
      small_not_overflow[of 5]
    by (simp add: ignore_malformed_def)
  show ?thesis unfolding a b by simp
qed

text \<open>
  A mean of \<open>2^1024\<close> is too large for a float: the division raises, and so does
  \<open>analyze_text\<close>.
\<close>

lemma satisfaction_overflow_example:
  "calculate_satisfaction_level text (Some [(''pace'', 2 ^ 1024)]) = Inl OverflowError"
  by (rule satisfaction_overflow) (simp_all add: float_overflow_def)

end
